theory Spec2Isabelle
  imports Complex_Main "HOL-Library.Multiset"
begin

section \<open>Values and the outside world\<close>

text \<open>
  The two worker scripts \<^verbatim>\<open>optimize-worker.py\<close> and \<^verbatim>\<open>testgaps-worker.py\<close> build Python
  dictionaries and lists and hand them to \<^verbatim>\<open>json.dumps\<close>. A dictionary keeps its keys in
  insertion order, so an object is an association list.
\<close>

datatype json =
    JNull
  | JBool bool
  | JInt int
  | JStr string
  | JList "json list"
  | JObj "(string \<times> json) list"

datatype exn = IndexError

datatype outcome = Exit int | Raised exn

text \<open>
  The rotation state is the dictionary kept in the state file. The key of the history list is
  \<^verbatim>\<open>completed_modules\<close> in one script and \<^verbatim>\<open>completed_crates\<close> in the other; the
  field \<open>completed\<close> stands for both. \<open>current_index\<close> is whatever integer the file holds.
\<close>

record state =
  current_index :: int
  completed :: "string list"
  last_analyzed :: "string option"

text \<open>
  One path produced by \<^verbatim>\<open>Path.rglob\<close>: whether it is a regular file, its suffix, and what
  \<^verbatim>\<open>read_text(encoding='utf-8', errors='ignore')\<close> gives, \<open>None\<close> when the read raises.
\<close>

record entry =
  is_file :: bool
  suffix :: string
  read_text :: "string option"

text \<open>
  What a run of one scanner reads and writes. Paths are relative to \<^verbatim>\<open>PROJECT_ROOT\<close>.
  \<open>state_file\<close> is \<open>None\<close> while the state file does not exist; \<open>state_saves\<close> records
  every state that \<^verbatim>\<open>save_state\<close> has written, oldest first. \<open>results_file\<close> holds the
  lines of the results log, one JSON document each. Of the standard output only the JSON
  document printed at the end of \<^verbatim>\<open>main\<close> is kept (\<open>stdout_json\<close>); the progress lines
  are left out. \<open>clock\<close> and \<open>ticks\<close> give the successive readings of
  \<^verbatim>\<open>datetime.now(timezone.utc).isoformat()\<close>.
\<close>

record world =
  state_file :: "state option"
  state_saves :: "state list"
  results_file :: "json list"
  stdout_json :: "json list"
  path_exists :: "string \<Rightarrow> bool"
  rglob :: "string \<Rightarrow> string \<Rightarrow> entry list"
  clock :: "nat \<Rightarrow> string"
  ticks :: nat

text \<open>
  \<^verbatim>\<open>re.findall\<close> belongs to the Python library, not to the repository: the scanners take it
  as a parameter. The first argument says whether \<^verbatim>\<open>re.MULTILINE\<close> is passed, the second
  is the pattern, the third the text; only the number of matches is used.
\<close>

type_synonym regex = "bool \<Rightarrow> string \<Rightarrow> string \<Rightarrow> string list"

section \<open>Python built-ins used by the scripts\<close>

definition now :: "world \<Rightarrow> string \<times> world" where
  "now w = (clock w (ticks w), w\<lparr>ticks := Suc (ticks w)\<rparr>)"

text \<open>List indexing: a negative index counts from the end, anything else out of range raises.\<close>

definition py_getitem :: "'a list \<Rightarrow> int \<Rightarrow> exn + 'a" where
  "py_getitem xs i =
     (let n = int (length xs) in
      if 0 \<le> i \<and> i < n then Inr (xs ! nat i)
      else if - n \<le> i \<and> i < 0 then Inr (xs ! nat (n + i))
      else Inl IndexError)"

text \<open>\<^verbatim>\<open>str(n)\<close> for a count, as the f-strings format it.\<close>

definition digit_char :: "nat \<Rightarrow> char" where
  "digit_char d = char_of (48 + d)"

function str_of_nat :: "nat \<Rightarrow> string" where
  "str_of_nat n =
     (if n < 10 then [digit_char n] else str_of_nat (n div 10) @ [digit_char (n mod 10)])"
  by pat_completeness auto
termination
  by (relation "measure id") auto

declare str_of_nat.simps [simp del]

text \<open>\<^verbatim>\<open>str.lower\<close> on the ASCII letters, and the substring test \<^verbatim>\<open>sub in s\<close>.\<close>

definition lower_char :: "char \<Rightarrow> char" where
  "lower_char c =
     (let n = (of_char c :: nat) in if 65 \<le> n \<and> n \<le> 90 then char_of (n + 32) else c)"

definition lower :: "string \<Rightarrow> string" where
  "lower s = map lower_char s"

fun starts_with :: "string \<Rightarrow> string \<Rightarrow> bool" where
  "starts_with s [] = True"
| "starts_with [] (p # ps) = False"
| "starts_with (c # cs) (p # ps) = (c = p \<and> starts_with cs ps)"

fun str_contains :: "string \<Rightarrow> string \<Rightarrow> bool" where
  "str_contains sub [] = (sub = [])"
| "str_contains sub (c # cs) = (starts_with (c # cs) sub \<or> str_contains sub cs)"

text \<open>
  \<^verbatim>\<open>str.splitlines\<close>: a line ends at \<^verbatim>\<open>\n\<close>, \<^verbatim>\<open>\r\<close>, \<^verbatim>\<open>\r\n\<close>, \<^verbatim>\<open>\v\<close>, \<^verbatim>\<open>\f\<close>,
  \<^verbatim>\<open>\x1c\<close>, \<^verbatim>\<open>\x1d\<close>, \<^verbatim>\<open>\x1e\<close> or \<^verbatim>\<open>\x85\<close>; text after the last line end is a line of
  its own when it is not empty.
\<close>

definition is_linebreak :: "char \<Rightarrow> bool" where
  "is_linebreak c = (of_char c \<in> {10, 11, 12, 13, 28, 29, 30, 133 :: nat})"

fun splitlines_from :: "string \<Rightarrow> string \<Rightarrow> string list" where
  "splitlines_from cur [] = (if cur = [] then [] else [rev cur])"
| "splitlines_from cur [c] =
     (if is_linebreak c then [rev cur] else [rev (c # cur)])"
| "splitlines_from cur (c # d # cs) =
     (if c = CHR 0x0D \<and> d = CHR 0x0A then rev cur # splitlines_from [] cs
      else if is_linebreak c then rev cur # splitlines_from [] (d # cs)
      else splitlines_from (c # cur) (d # cs))"

definition splitlines :: "string \<Rightarrow> string list" where
  "splitlines s = splitlines_from [] s"

text \<open>\<^verbatim>\<open>result.get("success", False)\<close> read as a condition.\<close>

fun truthy :: "json \<Rightarrow> bool" where
  "truthy JNull = False"
| "truthy (JBool b) = b"
| "truthy (JInt i) = (i \<noteq> 0)"
| "truthy (JStr s) = (s \<noteq> [])"
| "truthy (JList xs) = (xs \<noteq> [])"
| "truthy (JObj kvs) = (kvs \<noteq> [])"

fun field :: "string \<Rightarrow> json \<Rightarrow> json option" where
  "field k (JObj kvs) = map_of kvs k"
| "field k _ = None"

definition get_success :: "json \<Rightarrow> bool" where
  "get_success result = (case field ''success'' result of Some v \<Rightarrow> truthy v | None \<Rightarrow> False)"

section \<open>Rotation state (both scripts)\<close>

definition save_state :: "state \<Rightarrow> world \<Rightarrow> world" where
  "save_state st w = w\<lparr>state_file := Some st, state_saves := state_saves w @ [st]\<rparr>"

definition get_state :: "world \<Rightarrow> state \<times> world" where
  "get_state w =
     (case state_file w of
        None \<Rightarrow>
          (let st = \<lparr>current_index = 0, completed = [], last_analyzed = None\<rparr>
           in (st, save_state st w))
      | Some st \<Rightarrow> (st, w))"

section \<open>Pattern, file and line counters\<close>

text \<open>
  The loop of \<^verbatim>\<open>count_patterns\<close> and of \<^verbatim>\<open>count_in_files\<close> over the paths that
  \<^verbatim>\<open>rglob("*")\<close> yields; \<open>findall\<close> is \<^verbatim>\<open>re.findall\<close> with the pattern (and flag) fixed.
  A file whose read raises leaves the count as it is.
\<close>

fun count_loop :: "(string \<Rightarrow> string list) \<Rightarrow> string list \<Rightarrow> entry list \<Rightarrow> nat \<Rightarrow> nat" where
  "count_loop findall exts [] cnt = cnt"
| "count_loop findall exts (p # ps) cnt =
     count_loop findall exts ps
       (if is_file p \<and> suffix p \<in> set exts
        then (case read_text p of Some content \<Rightarrow> cnt + length (findall content) | None \<Rightarrow> cnt)
        else cnt)"

definition count_patterns :: "regex \<Rightarrow> world \<Rightarrow> string \<Rightarrow> string \<Rightarrow> nat" where
  "count_patterns re w module_path pattern =
     count_loop (re False pattern) [''.rs'', ''.ts'', ''.tsx'', ''.js'', ''.jsx'']
       (rglob w module_path ''*'') 0"

definition count_in_files :: "regex \<Rightarrow> world \<Rightarrow> string \<Rightarrow> string \<Rightarrow> string list option \<Rightarrow> nat" where
  "count_in_files re w path pattern extensions =
     (let extensions = (case extensions of None \<Rightarrow> [''.rs''] | Some e \<Rightarrow> e)
      in count_loop (re True pattern) extensions (rglob w path ''*'') 0)"

fun count_files_loop :: "string list \<Rightarrow> entry list \<Rightarrow> nat \<Rightarrow> nat" where
  "count_files_loop exts [] cnt = cnt"
| "count_files_loop exts (p # ps) cnt =
     count_files_loop exts ps (if is_file p \<and> suffix p \<in> set exts then cnt + 1 else cnt)"

definition count_files :: "world \<Rightarrow> string \<Rightarrow> string \<Rightarrow> string list option \<Rightarrow> nat" where
  "count_files w path pattern extensions =
     (let extensions = (case extensions of None \<Rightarrow> [''.rs''] | Some e \<Rightarrow> e)
      in count_files_loop extensions (rglob w path pattern) 0)"

fun count_lines_loop :: "string list \<Rightarrow> entry list \<Rightarrow> nat \<Rightarrow> nat" where
  "count_lines_loop exts [] lines = lines"
| "count_lines_loop exts (p # ps) lines =
     count_lines_loop exts ps
       (if is_file p \<and> suffix p \<in> set exts
        then (case read_text p of Some content \<Rightarrow> lines + length (splitlines content) | None \<Rightarrow> lines)
        else lines)"

definition count_lines :: "world \<Rightarrow> string \<Rightarrow> string list option \<Rightarrow> nat" where
  "count_lines w path extensions =
     (let extensions = (case extensions of None \<Rightarrow> [''.rs''] | Some e \<Rightarrow> e)
      in count_lines_loop extensions (rglob w path ''*'') 0)"

section \<open>The patterns\<close>

text \<open>
  The raw-string patterns of the two scripts. A backslash cannot be written inside a string
  literal, so it is the character \<open>bs\<close>: \<open>clone_pattern\<close> is \<^verbatim>\<open>\.clone\(\)\<close>, and so on
  in the order of the source.
\<close>

definition bs :: char where
  "bs = CHR 0x5C"

definition clone_pattern :: string where
  "clone_pattern = bs # ''.clone'' @ bs # ''('' @ bs # '')''"

definition string_alloc_pattern :: string where
  "string_alloc_pattern = ''String::from|to_string'' @ bs # ''('' @ bs # '')''"

definition n_plus_one_pattern :: string where
  "n_plus_one_pattern = ''(for|while).*'' @ bs # ''.(query|execute)''"

definition callbacks_pattern :: string where
  "callbacks_pattern = ''(function|const'' @ bs # ''s+'' @ bs # ''w+'' @ bs # ''s*=)''"

definition memoized_pattern :: string where
  "memoized_pattern = ''(useCallback|useMemo|React'' @ bs # ''.memo)''"

definition inline_objects_pattern :: string where
  "inline_objects_pattern = ''='' @ bs # ''{|'' @ bs # ''='' @ bs # ''[''"

definition async_pattern :: string where
  "async_pattern = ''async (fn|function)''"

definition await_pattern :: string where
  "await_pattern = bs # ''bawait'' @ bs # ''b''"

definition pub_fn_pattern :: string where
  "pub_fn_pattern = ''pub'' @ bs # ''s+fn'' @ bs # ''s+''"

definition test_attr_pattern :: string where
  "test_attr_pattern = ''#'' @ bs # ''[test'' @ bs # '']''"

definition result_pattern :: string where
  "result_pattern = ''Result<''"

definition error_test_pattern :: string where
  "error_test_pattern = ''(should_panic|expect_err|is_err|unwrap_err)''"

definition doc_test_pattern :: string where
  "doc_test_pattern = ''```rust''"

section \<open>Optimization scanner\<close>

definition MODULES :: "string list" where
  "MODULES = [''keyrx_core'', ''keyrx_daemon'', ''keyrx_compiler'', ''keyrx_ui/src'']"

text \<open>\<^verbatim>\<open>d[k] = v\<close> on a dictionary: an existing key keeps its place, a new one goes last.\<close>

fun dict_set :: "(string \<times> json) list \<Rightarrow> string \<Rightarrow> json \<Rightarrow> (string \<times> json) list" where
  "dict_set [] k v = [(k, v)]"
| "dict_set ((k', v') # kvs) k v =
     (if k' = k then (k, v) # kvs else (k', v') # dict_set kvs k v)"

text \<open>
  Lines 84 to 163 of \<^verbatim>\<open>analyze_module\<close>: the counts and the rules, in the order of the
  source, giving the lists \<^verbatim>\<open>suggestions\<close> and \<^verbatim>\<open>metrics\<close>. The true division of
  \<^verbatim>\<open>memoized < callbacks / 4\<close> is division of reals.
\<close>

definition module_checks ::
  "regex \<Rightarrow> world \<Rightarrow> string \<Rightarrow> string \<Rightarrow> json list \<times> (string \<times> json) list" where
  "module_checks re w module_path module_name =
     (let suggestions = [];
          metrics = [];
          clone_count = count_patterns re w module_path clone_pattern;
          metrics = dict_set metrics ''clones'' (JInt (int clone_count));
          suggestions =
            (if clone_count > 50
             then suggestions @
               [JObj [(''type'', JStr ''excessive-clones''),
                      (''severity'', JStr ''medium''),
                      (''count'', JInt (int clone_count)),
                      (''suggestion'', JStr (''Found '' @ str_of_nat clone_count @
                         '' .clone() calls. Review for unnecessary memory allocations.''))]]
             else suggestions);
          string_alloc = count_patterns re w module_path string_alloc_pattern;
          metrics = dict_set metrics ''string_allocations'' (JInt (int string_alloc));
          suggestions =
            (if string_alloc > 100
             then suggestions @
               [JObj [(''type'', JStr ''string-allocations''),
                      (''severity'', JStr ''low''),
                      (''count'', JInt (int string_alloc)),
                      (''suggestion'', JStr (''Found '' @ str_of_nat string_alloc @
                         '' string allocations. Consider using &str or Cow<str>.''))]]
             else suggestions);
          n_plus_one = count_patterns re w module_path n_plus_one_pattern;
          metrics = dict_set metrics ''potential_n_plus_one'' (JInt (int n_plus_one));
          suggestions =
            (if n_plus_one > 0
             then suggestions @
               [JObj [(''type'', JStr ''n+1-query''),
                      (''severity'', JStr ''high''),
                      (''count'', JInt (int n_plus_one)),
                      (''suggestion'', JStr (''Found '' @ str_of_nat n_plus_one @
                         '' potential N+1 query patterns. Use batch queries or joins.''))]]
             else suggestions);
          (suggestions, metrics) =
            (if str_contains ''ui'' (lower module_name)
             then
               (let callbacks = count_patterns re w module_path callbacks_pattern;
                    memoized = count_patterns re w module_path memoized_pattern;
                    metrics = dict_set metrics ''callbacks'' (JInt (int callbacks));
                    metrics = dict_set metrics ''memoized'' (JInt (int memoized));
                    suggestions =
                      (if callbacks > 20 \<and> real memoized < real callbacks / 4
                       then suggestions @
                         [JObj [(''type'', JStr ''missing-memoization''),
                                (''severity'', JStr ''medium''),
                                (''suggestion'', JStr (''Only '' @ str_of_nat memoized @
                                   '' memoized out of '' @ str_of_nat callbacks @
                                   '' functions. Use useCallback/useMemo.''))]]
                       else suggestions);
                    inline_objects = count_patterns re w module_path inline_objects_pattern;
                    metrics = dict_set metrics ''inline_objects'' (JInt (int inline_objects));
                    suggestions =
                      (if inline_objects > 50
                       then suggestions @
                         [JObj [(''type'', JStr ''inline-objects''),
                                (''severity'', JStr ''low''),
                                (''count'', JInt (int inline_objects)),
                                (''suggestion'', JStr (''Found '' @ str_of_nat inline_objects @
                                   '' inline objects/arrays. May cause re-renders.''))]]
                       else suggestions)
                in (suggestions, metrics))
             else (suggestions, metrics));
          async_count = count_patterns re w module_path async_pattern;
          await_count = count_patterns re w module_path await_pattern;
          metrics = dict_set metrics ''async_functions'' (JInt (int async_count));
          metrics = dict_set metrics ''awaits'' (JInt (int await_count));
          suggestions =
            (if async_count > 10 \<and> await_count > async_count * 5
             then suggestions @
               [JObj [(''type'', JStr ''sequential-awaits''),
                      (''severity'', JStr ''medium''),
                      (''suggestion'', JStr
                         ''Potential sequential awaits detected. Consider Promise.all() for parallel operations.'')]]
             else suggestions)
      in (suggestions, metrics))"

text \<open>
  \<^verbatim>\<open>analyze_module\<close>: the guard on the module directory, then the checks, the record
  appended to the results file, and the dictionary returned to \<^verbatim>\<open>main\<close>.
\<close>

definition analyze_module :: "regex \<Rightarrow> string \<Rightarrow> world \<Rightarrow> json \<times> world" where
  "analyze_module re module_name w =
     (let module_path = module_name in
      if \<not> path_exists w module_path
      then (JObj [(''success'', JBool False),
                  (''module'', JStr module_name),
                  (''error'', JStr ''Module not found'')], w)
      else
        (let (suggestions, metrics) = module_checks re w module_path module_name;
             (timestamp, w) = now w;
             result = JObj [(''timestamp'', JStr timestamp),
                            (''module'', JStr module_name),
                            (''suggestionCount'', JInt (int (length suggestions))),
                            (''suggestions'', JList suggestions),
                            (''metrics'', JObj metrics)];
             w = w\<lparr>results_file := results_file w @ [result]\<rparr>
         in (JObj [(''success'', JBool True),
                   (''module'', JStr module_name),
                   (''suggestionCount'', JInt (int (length suggestions))),
                   (''metrics'', JObj metrics),
                   (''message'', JStr (''Analyzed '' @ module_name @ '': found '' @
                      str_of_nat (length suggestions) @ '' optimization opportunities''))], w)))"

section \<open>Rotation controller\<close>

text \<open>
  \<^verbatim>\<open>main\<close> is the same in both scripts up to the unit list and the analysis it calls, which
  are the two parameters here. An \<^verbatim>\<open>IndexError\<close> of the unit selection ends the run where
  it is raised.
\<close>

definition main_with ::
  "string list \<Rightarrow> (string \<Rightarrow> world \<Rightarrow> json \<times> world) \<Rightarrow> world \<Rightarrow> outcome \<times> world" where
  "main_with units analyze w =
     (let (state, w) = get_state w;
          current_index = current_index state;
          (current_index, state) =
            (if current_index \<ge> int (length units)
             then (0, state\<lparr>current_index := 0\<rparr>)
             else (current_index, state))
      in case py_getitem units current_index of
           Inl e \<Rightarrow> (Raised e, w)
         | Inr unit_name \<Rightarrow>
             (let (result, w) = analyze unit_name w;
                  state = state\<lparr>current_index := (current_index + 1) mod int (length units)\<rparr>;
                  (timestamp, w) = now w;
                  state = state\<lparr>last_analyzed := Some timestamp\<rparr>;
                  state =
                    (if unit_name \<notin> set (completed state)
                     then state\<lparr>completed := completed state @ [unit_name]\<rparr>
                     else state);
                  w = save_state state w;
                  w = w\<lparr>stdout_json := stdout_json w @ [result]\<rparr>
              in (Exit (if get_success result then 0 else 1), w)))"

definition optimize_main :: "regex \<Rightarrow> world \<Rightarrow> outcome \<times> world" where
  "optimize_main re = main_with MODULES (analyze_module re)"

section \<open>Test-gap scanner\<close>

definition CRATES :: "string list" where
  "CRATES = [''keyrx_core'', ''keyrx_daemon'', ''keyrx_compiler'']"

text \<open>Line 178 of \<^verbatim>\<open>analyze_crate\<close>; \<^verbatim>\<open>//\<close> on counts is \<open>div\<close>.\<close>

definition estimated_coverage :: "nat \<Rightarrow> nat \<Rightarrow> nat" where
  "estimated_coverage source_lines test_lines =
     (if source_lines > 0 then test_lines * 100 div source_lines else 0)"

text \<open>
  Lines 111 to 182 of \<^verbatim>\<open>analyze_crate\<close>: the lists \<^verbatim>\<open>gaps\<close> and \<^verbatim>\<open>metrics\<close> and the
  coverage estimate.
\<close>

definition crate_checks ::
  "regex \<Rightarrow> world \<Rightarrow> string \<Rightarrow> json list \<times> (string \<times> json) list \<times> nat" where
  "crate_checks re w crate_path =
     (let gaps = [];
          metrics = [];
          src_path = crate_path @ ''/src'';
          tests_path = crate_path @ ''/tests'';
          pub_fn_count = count_in_files re w src_path pub_fn_pattern None;
          test_fn_count = count_in_files re w tests_path test_attr_pattern None;
          metrics = dict_set metrics ''public_functions'' (JInt (int pub_fn_count));
          metrics = dict_set metrics ''test_functions'' (JInt (int test_fn_count));
          gaps =
            (if pub_fn_count > 0 \<and> real test_fn_count < real pub_fn_count / 2
             then gaps @
               [JObj [(''type'', JStr ''untested-functions''),
                      (''severity'', JStr ''high''),
                      (''suggestion'', JStr (str_of_nat pub_fn_count @
                         '' public functions but only '' @ str_of_nat test_fn_count @
                         '' tests. Add more unit tests.''))]]
             else gaps);
          result_count = count_in_files re w src_path result_pattern None;
          error_test_count = count_in_files re w tests_path error_test_pattern None;
          metrics = dict_set metrics ''result_types'' (JInt (int result_count));
          metrics = dict_set metrics ''error_tests'' (JInt (int error_test_count));
          gaps =
            (if result_count > 0 \<and> real error_test_count < real result_count / 3
             then gaps @
               [JObj [(''type'', JStr ''missing-error-tests''),
                      (''severity'', JStr ''high''),
                      (''suggestion'', JStr (str_of_nat result_count @
                         '' Result types but only '' @ str_of_nat error_test_count @
                         '' error tests. Add error path testing.''))]]
             else gaps);
          integration_tests =
            (if path_exists w tests_path then count_files w tests_path ''*'' None else 0);
          metrics = dict_set metrics ''integration_tests'' (JInt (int integration_tests));
          gaps =
            (if integration_tests < 3
             then gaps @
               [JObj [(''type'', JStr ''missing-integration-tests''),
                      (''severity'', JStr ''medium''),
                      (''suggestion'', JStr (''Only '' @ str_of_nat integration_tests @
                         '' integration test files. Add more end-to-end tests.''))]]
             else gaps);
          doc_tests = count_in_files re w src_path doc_test_pattern None;
          metrics = dict_set metrics ''doc_tests'' (JInt (int doc_tests));
          gaps =
            (if doc_tests < 5
             then gaps @
               [JObj [(''type'', JStr ''missing-doc-tests''),
                      (''severity'', JStr ''low''),
                      (''suggestion'', JStr (''Only '' @ str_of_nat doc_tests @
                         '' documentation tests. Add examples to public APIs.''))]]
             else gaps);
          source_lines = count_lines w src_path None;
          test_lines = (if path_exists w tests_path then count_lines w tests_path None else 0);
          estimated_coverage = estimated_coverage source_lines test_lines;
          metrics = dict_set metrics ''source_lines'' (JInt (int source_lines));
          metrics = dict_set metrics ''test_lines'' (JInt (int test_lines));
          metrics = dict_set metrics ''estimated_coverage'' (JInt (int estimated_coverage))
      in (gaps, metrics, estimated_coverage))"

definition analyze_crate :: "regex \<Rightarrow> string \<Rightarrow> world \<Rightarrow> json \<times> world" where
  "analyze_crate re crate_name w =
     (let crate_path = crate_name in
      if \<not> path_exists w crate_path
      then (JObj [(''success'', JBool False),
                  (''crate'', JStr crate_name),
                  (''error'', JStr ''Crate not found'')], w)
      else
        (let (gaps, metrics, estimated_coverage) = crate_checks re w crate_path;
             (timestamp, w) = now w;
             result = JObj [(''timestamp'', JStr timestamp),
                            (''crate'', JStr crate_name),
                            (''gapCount'', JInt (int (length gaps))),
                            (''estimatedCoverage'', JInt (int estimated_coverage)),
                            (''gaps'', JList gaps),
                            (''metrics'', JObj metrics)];
             w = w\<lparr>results_file := results_file w @ [result]\<rparr>
         in (JObj [(''success'', JBool True),
                   (''crate'', JStr crate_name),
                   (''gapCount'', JInt (int (length gaps))),
                   (''estimatedCoverage'', JInt (int estimated_coverage)),
                   (''metrics'', JObj metrics),
                   (''message'', JStr (''Analyzed '' @ crate_name @ '': ~'' @
                      str_of_nat estimated_coverage @ ''% coverage, found '' @
                      str_of_nat (length gaps) @ '' gaps''))], w)))"

definition testgaps_main :: "regex \<Rightarrow> world \<Rightarrow> outcome \<times> world" where
  "testgaps_main re = main_with CRATES (analyze_crate re)"

section \<open>Observations on a run\<close>

text \<open>
  The index a run starts from is the one in the state file, or 0 when there is none
  (\<^verbatim>\<open>get_state\<close>). The index and the unit that \<^verbatim>\<open>main\<close> then selects (lines 198 to
  206 of \<^verbatim>\<open>optimize-worker.py\<close>, 220 to 228 of \<^verbatim>\<open>testgaps-worker.py\<close>) are named
  here so that statements can speak of them.
\<close>

definition start_index :: "world \<Rightarrow> int" where
  "start_index w = (case state_file w of None \<Rightarrow> 0 | Some st \<Rightarrow> current_index st)"

definition selected_index :: "string list \<Rightarrow> world \<Rightarrow> int" where
  "selected_index units w =
     (if start_index w \<ge> int (length units) then 0 else start_index w)"

definition selected_unit :: "string list \<Rightarrow> world \<Rightarrow> exn + string" where
  "selected_unit units w = py_getitem units (selected_index units w)"

text \<open>
  What a run has added: the records appended to the results log, the states written to the
  state file, and the JSON documents printed.
\<close>

definition appended :: "world \<Rightarrow> world \<Rightarrow> json list" where
  "appended w w' = drop (length (results_file w)) (results_file w')"

definition saved :: "world \<Rightarrow> world \<Rightarrow> state list" where
  "saved w w' = drop (length (state_saves w)) (state_saves w')"

definition printed :: "world \<Rightarrow> world \<Rightarrow> json list" where
  "printed w w' = drop (length (stdout_json w)) (stdout_json w')"

text \<open>
  The list under a key of a record, the advisories (suggestions or gaps) of the records a
  run has appended, those of one type, and the unit a printed document names.
\<close>

definition list_field :: "string \<Rightarrow> json \<Rightarrow> json list" where
  "list_field k r = (case field k r of Some (JList xs) \<Rightarrow> xs | _ \<Rightarrow> [])"

definition emitted :: "world \<Rightarrow> world \<Rightarrow> json list" where
  "emitted w w' =
     concat (map (\<lambda>r. list_field ''suggestions'' r @ list_field ''gaps'' r) (appended w w'))"

definition of_type :: "string \<Rightarrow> json list \<Rightarrow> json list" where
  "of_type t advisories = filter (\<lambda>a. field ''type'' a = Some (JStr t)) advisories"

definition unit_of :: "json \<Rightarrow> string" where
  "unit_of r =
     (case field ''module'' r of
        Some (JStr u) \<Rightarrow> u
      | _ \<Rightarrow> (case field ''crate'' r of Some (JStr u) \<Rightarrow> u | _ \<Rightarrow> []))"

text \<open>
  The advisories of one type that a single analysis of a unit writes to the results log.
\<close>

definition module_advisories :: "regex \<Rightarrow> world \<Rightarrow> string \<Rightarrow> string \<Rightarrow> json list" where
  "module_advisories re w module_name t =
     of_type t (emitted w (snd (analyze_module re module_name w)))"

definition crate_advisories :: "regex \<Rightarrow> world \<Rightarrow> string \<Rightarrow> string \<Rightarrow> json list" where
  "crate_advisories re w crate_name t =
     of_type t (emitted w (snd (analyze_crate re crate_name w)))"

text \<open>
  What a single analysis of a module writes under a key of the metrics of each record it
  appends; \<open>None\<close> where the metrics have no such key.
\<close>

definition module_metric :: "regex \<Rightarrow> world \<Rightarrow> string \<Rightarrow> string \<Rightarrow> json option list" where
  "module_metric re w module_name k =
     map (\<lambda>r. case field ''metrics'' r of Some m \<Rightarrow> field k m | None \<Rightarrow> None)
       (appended w (snd (analyze_module re module_name w)))"

text \<open>
  Consecutive invocations of a scanner, each starting from the files the one before has
  left.
\<close>

fun invocations :: "(world \<Rightarrow> outcome \<times> world) \<Rightarrow> nat \<Rightarrow> world \<Rightarrow> world" where
  "invocations run 0 w = w"
| "invocations run (Suc n) w = invocations run n (snd (run w))"

section \<open>A sample engine and sample source trees\<close>

text \<open>
  Concrete inputs need a concrete \<^verbatim>\<open>re.findall\<close>. \<open>scan_literals\<close> finds the
  non-overlapping occurrences of the first matching literal of a list, from left to right,
  which is what \<^verbatim>\<open>re.findall\<close> does for an alternation of literals. \<open>sample_findall\<close>
  reads each pattern of the scripts as such an alternation. It agrees with Python on the
  sample texts below: there every run of white space is one blank, \<^verbatim>\<open>await\<close> never
  touches a word character, the words \<^verbatim>\<open>while\<close> and \<^verbatim>\<open>const\<close> do not occur, and
  \<^verbatim>\<open>for\<close> occurs only in the statement \<^verbatim>\<open>for r in rows { db.query(r); }\<close>, on a line of
  its own.
\<close>

fun first_alt :: "string list \<Rightarrow> string \<Rightarrow> string option" where
  "first_alt [] s = None"
| "first_alt (a # as) s = (if starts_with s a then Some a else first_alt as s)"

fun scan_literals :: "string list \<Rightarrow> nat \<Rightarrow> string \<Rightarrow> string list" where
  "scan_literals alts skip [] = []"
| "scan_literals alts (Suc skip) (c # cs) = scan_literals alts skip cs"
| "scan_literals alts 0 (c # cs) =
     (case first_alt alts (c # cs) of
        Some a \<Rightarrow> a # scan_literals alts (length a - 1) cs
      | None \<Rightarrow> scan_literals alts 0 cs)"

definition sample_alternatives :: "string \<Rightarrow> string list" where
  "sample_alternatives pattern =
     (if pattern = clone_pattern then [''.clone()'']
      else if pattern = string_alloc_pattern then [''String::from'', ''to_string()'']
      else if pattern = n_plus_one_pattern then [''for r in rows { db.query'']
      else if pattern = callbacks_pattern then [''function'']
      else if pattern = memoized_pattern then [''useCallback'', ''useMemo'', ''React.memo'']
      else if pattern = inline_objects_pattern then [''={'', ''=['']
      else if pattern = async_pattern then [''async fn'', ''async function'']
      else if pattern = await_pattern then [''await'']
      else if pattern = pub_fn_pattern then [''pub fn '']
      else if pattern = test_attr_pattern then [''#[test]'']
      else if pattern = result_pattern then [''Result<'']
      else if pattern = error_test_pattern
        then [''should_panic'', ''expect_err'', ''is_err'', ''unwrap_err'']
      else if pattern = doc_test_pattern then [''```rust'']
      else [])"

definition sample_findall :: regex where
  "sample_findall multiline pattern text = scan_literals (sample_alternatives pattern) 0 text"

text \<open>
  A world with a given state file, the given directories, and under each path the given
  files; nothing written or printed yet.
\<close>

definition source_file :: "string \<Rightarrow> string \<Rightarrow> entry" where
  "source_file sfx text = \<lparr>is_file = True, suffix = sfx, read_text = Some text\<rparr>"

definition sample_world ::
  "state option \<Rightarrow> string list \<Rightarrow> (string \<Rightarrow> entry list) \<Rightarrow> world" where
  "sample_world st dirs tree =
     \<lparr>state_file = st, state_saves = [], results_file = [], stdout_json = [],
      path_exists = (\<lambda>p. p \<in> set dirs), rglob = (\<lambda>p pattern. tree p),
      clock = (\<lambda>n. ''2025-01-01T00:00:00.00000'' @ str_of_nat n @ ''+00:00''), ticks = 0\<rparr>"

definition state_at :: "int \<Rightarrow> state option" where
  "state_at i = Some \<lparr>current_index = i, completed = [], last_analyzed = None\<rparr>"

definition repeated :: "nat \<Rightarrow> string \<Rightarrow> string" where
  "repeated n s = concat (replicate n s)"

text \<open>No unit directory exists.\<close>

definition empty_world :: "state option \<Rightarrow> world" where
  "empty_world st = sample_world st [] (\<lambda>p. [])"

text \<open>A unit directory holding one source file with the given text.\<close>

definition one_file_world :: "state option \<Rightarrow> string \<Rightarrow> string \<Rightarrow> string \<Rightarrow> world" where
  "one_file_world st unit_name sfx text =
     sample_world st [unit_name] (\<lambda>p. if p = unit_name then [source_file sfx text] else [])"

text \<open>A crate with one file under \<^verbatim>\<open>src\<close> and one under \<^verbatim>\<open>tests\<close>.\<close>

definition crate_world :: "state option \<Rightarrow> string \<Rightarrow> string \<Rightarrow> string \<Rightarrow> world" where
  "crate_world st crate_name src_text tests_text =
     sample_world st [crate_name, crate_name @ ''/src'', crate_name @ ''/tests'']
       (\<lambda>p. if p = crate_name @ ''/src'' then [source_file ''.rs'' src_text]
            else if p = crate_name @ ''/tests'' then [source_file ''.rs'' tests_text]
            else if p = crate_name
              then [source_file ''.rs'' src_text, source_file ''.rs'' tests_text]
            else [])"

text \<open>
  A directory entry of a listing, and a directory \<^verbatim>\<open>u\<close> that holds the directories
  \<^verbatim>\<open>u/a\<close> and \<^verbatim>\<open>u/b\<close> with one source file each: \<^verbatim>\<open>rglob("*")\<close> on \<^verbatim>\<open>u\<close> yields the
  two directories and the two files.
\<close>

definition directory :: entry where
  "directory = \<lparr>is_file = False, suffix = [], read_text = None\<rparr>"

definition nested_world :: "string \<Rightarrow> string \<Rightarrow> world" where
  "nested_world text_a text_b =
     sample_world None [''u'', ''u/a'', ''u/b'']
       (\<lambda>p. if p = ''u''
              then [directory, directory, source_file ''.rs'' text_a, source_file ''.rs'' text_b]
            else if p = ''u/a'' then [source_file ''.rs'' text_a]
            else if p = ''u/b'' then [source_file ''.rs'' text_b]
            else [])"

section \<open>The rules of the optimization scanner\<close>

lemma of_type_Nil: "of_type t [] = []"
  by (simp add: of_type_def)

lemma of_type_append: "of_type t (xs @ ys) = of_type t xs @ of_type t ys"
  by (simp add: of_type_def)

lemma of_type_single:
  "of_type t [JObj ((''type'', JStr t') # rest)] =
     (if t' = t then [JObj ((''type'', JStr t') # rest)] else [])"
  by (simp add: of_type_def)

lemma of_type_if:
  "of_type t (if b then xs else ys) = (if b then of_type t xs else of_type t ys)"
  by simp

lemma fst_if: "fst (if b then p else q) = (if b then fst p else fst q)"
  by simp

lemmas rule_unfold =
  Let_def split_def fst_conv snd_conv fst_if of_type_if of_type_append of_type_single of_type_Nil





lemma inline_rule:
  "of_type ''inline-objects'' (fst (module_checks re w p n)) =
     (if str_contains ''ui'' (lower n) \<and> count_patterns re w p inline_objects_pattern > 50
      then [JObj [(''type'', JStr ''inline-objects''),
                  (''severity'', JStr ''low''),
                  (''count'', JInt (int (count_patterns re w p inline_objects_pattern))),
                  (''suggestion'', JStr (''Found '' @ str_of_nat (count_patterns re w p inline_objects_pattern) @
                     '' inline objects/arrays. May cause re-renders.''))]]
      else [])"
  unfolding module_checks_def rule_unfold
  by (simp split del: if_split cong: if_cong) simp


section \<open>What one analysis does to the world\<close>

lemma analyze_module_missing:
  "\<not> path_exists w n \<Longrightarrow>
   analyze_module re n w =
     (JObj [(''success'', JBool False), (''module'', JStr n), (''error'', JStr ''Module not found'')], w)"
  by (simp add: analyze_module_def)

lemma analyze_module_present:
  "path_exists w n \<Longrightarrow>
   analyze_module re n w =
     (JObj [(''success'', JBool True),
            (''module'', JStr n),
            (''suggestionCount'', JInt (int (length (fst (module_checks re w n n))))),
            (''metrics'', JObj (snd (module_checks re w n n))),
            (''message'', JStr (''Analyzed '' @ n @ '': found '' @
               str_of_nat (length (fst (module_checks re w n n))) @ '' optimization opportunities''))],
      w\<lparr>ticks := Suc (ticks w),
        results_file := results_file w @
          [JObj [(''timestamp'', JStr (clock w (ticks w))),
                 (''module'', JStr n),
                 (''suggestionCount'', JInt (int (length (fst (module_checks re w n n))))),
                 (''suggestions'', JList (fst (module_checks re w n n))),
                 (''metrics'', JObj (snd (module_checks re w n n)))]]\<rparr>)"
  by (simp add: analyze_module_def now_def split_def Let_def)

lemma analyze_crate_missing:
  "\<not> path_exists w n \<Longrightarrow>
   analyze_crate re n w =
     (JObj [(''success'', JBool False), (''crate'', JStr n), (''error'', JStr ''Crate not found'')], w)"
  by (simp add: analyze_crate_def)

lemma analyze_crate_present:
  "path_exists w n \<Longrightarrow>
   analyze_crate re n w =
     (JObj [(''success'', JBool True),
            (''crate'', JStr n),
            (''gapCount'', JInt (int (length (fst (crate_checks re w n))))),
            (''estimatedCoverage'', JInt (int (snd (snd (crate_checks re w n))))),
            (''metrics'', JObj (fst (snd (crate_checks re w n)))),
            (''message'', JStr (''Analyzed '' @ n @ '': ~'' @
               str_of_nat (snd (snd (crate_checks re w n))) @ ''% coverage, found '' @
               str_of_nat (length (fst (crate_checks re w n))) @ '' gaps''))],
      w\<lparr>ticks := Suc (ticks w),
        results_file := results_file w @
          [JObj [(''timestamp'', JStr (clock w (ticks w))),
                 (''crate'', JStr n),
                 (''gapCount'', JInt (int (length (fst (crate_checks re w n))))),
                 (''estimatedCoverage'', JInt (int (snd (snd (crate_checks re w n))))),
                 (''gaps'', JList (fst (crate_checks re w n))),
                 (''metrics'', JObj (fst (snd (crate_checks re w n))))]]\<rparr>)"
  by (simp add: analyze_crate_def now_def split_def Let_def)

lemma crate_checks_coverage:
  "snd (snd (crate_checks re w p)) =
     estimated_coverage (count_lines w (p @ ''/src'') None)
       (if path_exists w (p @ ''/tests'') then count_lines w (p @ ''/tests'') None else 0)"
  unfolding crate_checks_def Let_def split_def snd_conv ..

lemma appended_self_append: "results_file w' = results_file w @ rs \<Longrightarrow> appended w w' = rs"
  by (simp add: appended_def)

lemma floor_coverage:
  "0 < s \<Longrightarrow> int (estimated_coverage s t) = \<lfloor>real (t * 100) / real s\<rfloor>"
  unfolding estimated_coverage_def
  using floor_divide_of_nat_eq[of "t * 100" s, where ?'a = real] by simp

section \<open>Coverage estimate\<close>

text \<open>
  C6: the coverage estimate of the test-gap scanner is \<open>\<lfloor>test_lines * 100 / source_lines\<rfloor>\<close>
  whenever \<open>source_lines\<close> is positive and 0 when it is 0; it is 0 for 0 source lines and any
  number of test lines, and 50 for 100 source lines and 50 test lines. The record that
  \<^verbatim>\<open>analyze_crate\<close> appends for an existing crate carries this estimate of the two line
  counts under \<^verbatim>\<open>estimatedCoverage\<close>.
\<close>

theorem coverage_estimate:
  "(0 < source_lines \<longrightarrow>
      int (estimated_coverage source_lines test_lines) =
        \<lfloor>real (test_lines * 100) / real source_lines\<rfloor>)
   \<and> estimated_coverage 0 test_lines = 0
   \<and> estimated_coverage 100 50 = 50
   \<and> (path_exists w crate_name \<longrightarrow>
        map (field ''estimatedCoverage'') (appended w (snd (analyze_crate re crate_name w))) =
          [Some (JInt (int (estimated_coverage
             (count_lines w (crate_name @ ''/src'') None)
             (if path_exists w (crate_name @ ''/tests'')
              then count_lines w (crate_name @ ''/tests'') None else 0))))])"
proof (intro conjI impI)
  assume "0 < source_lines"
  then show "int (estimated_coverage source_lines test_lines) =
      \<lfloor>real (test_lines * 100) / real source_lines\<rfloor>"
    by (rule floor_coverage)
next
  show "estimated_coverage 0 test_lines = 0"
    by (simp add: estimated_coverage_def)
next
  show "estimated_coverage 100 50 = 50"
    by (simp add: estimated_coverage_def)
next
  assume ex: "path_exists w crate_name"
  show "map (field ''estimatedCoverage'') (appended w (snd (analyze_crate re crate_name w))) =
          [Some (JInt (int (estimated_coverage
             (count_lines w (crate_name @ ''/src'') None)
             (if path_exists w (crate_name @ ''/tests'')
              then count_lines w (crate_name @ ''/tests'') None else 0))))]"
    unfolding analyze_crate_present[OF ex] snd_conv crate_checks_coverage
    by (simp add: appended_def)
qed

theorem coverage_estimate_witness:
  "(0::nat) < 100
   \<and> path_exists (crate_world None ''keyrx_core'' ''fn f() {}'' ''#[test]'') ''keyrx_core''
   \<and> int (estimated_coverage 100 50) = \<lfloor>real (50 * 100) / real (100::nat)\<rfloor>
   \<and> map (field ''estimatedCoverage'')
        (appended (crate_world None ''keyrx_core'' ''fn f() {}'' ''#[test]'')
           (snd (analyze_crate sample_findall ''keyrx_core''
              (crate_world None ''keyrx_core'' ''fn f() {}'' ''#[test]'')))) =
      [Some (JInt 100)]"
proof -
  let ?w = "crate_world None ''keyrx_core'' ''fn f() {}'' ''#[test]''"
  have h1: "(0::nat) < 100" by simp
  have h2: "path_exists ?w ''keyrx_core''"
    by (simp add: crate_world_def sample_world_def)
  have h3: "path_exists ?w (''keyrx_core'' @ ''/tests'')"
    by (simp add: crate_world_def sample_world_def)
  have c1: "count_lines ?w (''keyrx_core'' @ ''/src'') None = 1"
    by code_simp
  have c2: "count_lines ?w (''keyrx_core'' @ ''/tests'') None = 1"
    by code_simp
  have e: "estimated_coverage 1 1 = 100"
    by (simp add: estimated_coverage_def)
  show ?thesis
    using coverage_estimate[of 100 50 ?w "''keyrx_core''" sample_findall] h1 h2 h3 c1 c2 e
    by simp
qed

section \<open>The rotation controller\<close>

lemma get_state_index: "current_index (fst (get_state w)) = start_index w"
  by (simp add: get_state_def start_index_def save_state_def Let_def split: option.split)

lemma get_state_world:
  "path_exists (snd (get_state w)) = path_exists w"
  "rglob (snd (get_state w)) = rglob w"
  "results_file (snd (get_state w)) = results_file w"
  "stdout_json (snd (get_state w)) = stdout_json w"
  "clock (snd (get_state w)) = clock w"
  "ticks (snd (get_state w)) = ticks w"
  by (simp_all add: get_state_def save_state_def Let_def split: option.split)

lemma get_state_saves:
  "state_saves (snd (get_state w)) =
     state_saves w @
       (case state_file w of
          None \<Rightarrow> [\<lparr>current_index = 0, completed = [], last_analyzed = None\<rparr>]
        | Some st \<Rightarrow> [])"
  by (simp add: get_state_def save_state_def Let_def split: option.split)

lemma main_with_raises:
  assumes "selected_unit units w = Inl e"
  shows "main_with units analyze w = (Raised e, snd (get_state w))"
  using assms
  by (cases "int (length units) \<le> start_index w")
     (simp_all add: main_with_def selected_unit_def selected_index_def get_state_index
        split_def Let_def)

lemma main_with_runs:
  assumes "selected_unit units w = Inr u"
  shows "main_with units analyze w =
     (let w1 = snd (get_state w);
          result = fst (analyze u w1);
          w2 = snd (analyze u w1);
          st = (fst (get_state w))
                 \<lparr>current_index := (selected_index units w + 1) mod int (length units),
                  last_analyzed := Some (clock w2 (ticks w2))\<rparr>;
          st = (if u \<notin> set (completed st) then st\<lparr>completed := completed st @ [u]\<rparr> else st)
      in (Exit (if get_success result then 0 else 1),
          w2\<lparr>ticks := Suc (ticks w2), state_file := Some st,
             state_saves := state_saves w2 @ [st],
             stdout_json := stdout_json w2 @ [result]\<rparr>))"
  using assms
  by (cases "int (length units) \<le> start_index w")
     (simp_all add: main_with_def selected_unit_def selected_index_def get_state_index
        split_def Let_def now_def save_state_def)

lemma main_with_start_index:
  assumes "selected_unit units w = Inr u"
  shows "start_index (snd (main_with units analyze w)) =
           (selected_index units w + 1) mod int (length units)"
  by (simp add: main_with_runs [OF assms] Let_def start_index_def)

lemma main_with_exit:
  assumes "selected_unit units w = Inr u"
  shows "fst (main_with units analyze w) =
           Exit (if get_success (fst (analyze u (snd (get_state w)))) then 0 else 1)"
  by (simp add: main_with_runs [OF assms] Let_def)

lemma main_with_results:
  assumes "selected_unit units w = Inr u"
  shows "results_file (snd (main_with units analyze w)) =
           results_file (snd (analyze u (snd (get_state w))))"
  by (simp add: main_with_runs [OF assms] Let_def)

lemma main_with_stdout:
  assumes "selected_unit units w = Inr u"
  shows "stdout_json (snd (main_with units analyze w)) =
           stdout_json (snd (analyze u (snd (get_state w)))) @ [fst (analyze u (snd (get_state w)))]"
  by (simp add: main_with_runs [OF assms] Let_def)

lemma main_with_saves:
  assumes "selected_unit units w = Inr u"
  shows "\<exists>st. current_index st = (selected_index units w + 1) mod int (length units) \<and>
           state_saves (snd (main_with units analyze w)) =
             state_saves (snd (analyze u (snd (get_state w)))) @ [st]"
  by (simp add: main_with_runs [OF assms] Let_def)

text \<open>The four ranges of the index a run starts from.\<close>

lemma selected_wrapped:
  assumes "int (length units) \<le> start_index w" and "units \<noteq> []"
  shows "selected_index units w = 0" and "selected_unit units w = Inr (units ! 0)"
  using assms by (simp_all add: selected_unit_def selected_index_def py_getitem_def)

lemma selected_in_range:
  assumes "0 \<le> start_index w" and "start_index w < int (length units)"
  shows "selected_index units w = start_index w"
    and "selected_unit units w = Inr (units ! nat (start_index w))"
  using assms by (simp_all add: selected_unit_def selected_index_def py_getitem_def)

lemma selected_negative:
  assumes "- int (length units) \<le> start_index w" and "start_index w < 0"
  shows "selected_index units w = start_index w"
    and "selected_unit units w = Inr (units ! nat (int (length units) + start_index w))"
  using assms by (simp_all add: selected_unit_def selected_index_def py_getitem_def)

lemma selected_below:
  assumes "start_index w < - int (length units)"
  shows "selected_unit units w = Inl IndexError"
  using assms by (simp add: selected_unit_def selected_index_def py_getitem_def)

lemma selected_unit_cases:
  "selected_unit units w = Inl IndexError \<or> (\<exists>u. selected_unit units w = Inr u)"
  by (cases "selected_unit units w") (auto intro: exn.exhaust)

text \<open>The analyses leave the state file and the standard output alone.\<close>

lemma analyze_module_results:
  "results_file (snd (analyze_module re u w)) =
     results_file w @
       (if path_exists w u
        then [JObj [(''timestamp'', JStr (clock w (ticks w))),
                    (''module'', JStr u),
                    (''suggestionCount'', JInt (int (length (fst (module_checks re w u u))))),
                    (''suggestions'', JList (fst (module_checks re w u u))),
                    (''metrics'', JObj (snd (module_checks re w u u)))]]
        else [])"
  by (cases "path_exists w u") (simp_all add: analyze_module_present analyze_module_missing)

lemma analyze_crate_results:
  "results_file (snd (analyze_crate re u w)) =
     results_file w @
       (if path_exists w u
        then [JObj [(''timestamp'', JStr (clock w (ticks w))),
                    (''crate'', JStr u),
                    (''gapCount'', JInt (int (length (fst (crate_checks re w u))))),
                    (''estimatedCoverage'', JInt (int (snd (snd (crate_checks re w u))))),
                    (''gaps'', JList (fst (crate_checks re w u))),
                    (''metrics'', JObj (fst (snd (crate_checks re w u))))]]
        else [])"
  by (cases "path_exists w u") (simp_all add: analyze_crate_present analyze_crate_missing)

lemma analyze_module_keeps:
  "stdout_json (snd (analyze_module re u w)) = stdout_json w"
  "state_saves (snd (analyze_module re u w)) = state_saves w"
  "unit_of (fst (analyze_module re u w)) = u"
  "get_success (fst (analyze_module re u w)) = path_exists w u"
  by (cases "path_exists w u";
      simp add: analyze_module_present analyze_module_missing unit_of_def get_success_def)+

lemma analyze_crate_keeps:
  "stdout_json (snd (analyze_crate re u w)) = stdout_json w"
  "state_saves (snd (analyze_crate re u w)) = state_saves w"
  "unit_of (fst (analyze_crate re u w)) = u"
  "get_success (fst (analyze_crate re u w)) = path_exists w u"
  by (cases "path_exists w u";
      simp add: analyze_crate_present analyze_crate_missing unit_of_def get_success_def)+

section \<open>One record per analysed unit\<close>

lemma optimize_results:
  "results_file (snd (optimize_main re w)) =
     results_file w @
       (case selected_unit MODULES w of
          Inl e \<Rightarrow> []
        | Inr u \<Rightarrow>
            if path_exists w u
            then [JObj [(''timestamp'', JStr (clock w (ticks w))),
                        (''module'', JStr u),
                        (''suggestionCount'',
                           JInt (int (length (fst (module_checks re (snd (get_state w)) u u))))),
                        (''suggestions'', JList (fst (module_checks re (snd (get_state w)) u u))),
                        (''metrics'', JObj (snd (module_checks re (snd (get_state w)) u u)))]]
            else [])"
proof (cases "selected_unit MODULES w")
  case (Inl e)
  then show ?thesis
    by (simp add: optimize_main_def main_with_raises get_state_world)
next
  case (Inr u)
  then show ?thesis
    by (simp add: optimize_main_def main_with_results analyze_module_results get_state_world)
qed

lemma testgaps_results:
  "results_file (snd (testgaps_main re w)) =
     results_file w @
       (case selected_unit CRATES w of
          Inl e \<Rightarrow> []
        | Inr u \<Rightarrow>
            if path_exists w u
            then [JObj [(''timestamp'', JStr (clock w (ticks w))),
                        (''crate'', JStr u),
                        (''gapCount'',
                           JInt (int (length (fst (crate_checks re (snd (get_state w)) u))))),
                        (''estimatedCoverage'',
                           JInt (int (snd (snd (crate_checks re (snd (get_state w)) u))))),
                        (''gaps'', JList (fst (crate_checks re (snd (get_state w)) u))),
                        (''metrics'', JObj (fst (snd (crate_checks re (snd (get_state w)) u))))]]
            else [])"
proof (cases "selected_unit CRATES w")
  case (Inl e)
  then show ?thesis
    by (simp add: testgaps_main_def main_with_raises get_state_world)
next
  case (Inr u)
  then show ?thesis
    by (simp add: testgaps_main_def main_with_results analyze_crate_results get_state_world)
qed

lemma empty_world_selected:
  "selected_unit MODULES (empty_world None) = Inr ''keyrx_core''"
  "selected_unit CRATES (empty_world None) = Inr ''keyrx_core''"
  "\<not> path_exists (empty_world None) ''keyrx_core''"
  by (simp_all add: selected_unit_def selected_index_def start_index_def empty_world_def
      sample_world_def MODULES_def CRATES_def py_getitem_def)

section \<open>Runs of the controller\<close>

lemma printed_append: "stdout_json w' = stdout_json w @ ds \<Longrightarrow> printed w w' = ds"
  by (simp add: printed_def)

lemma saved_append: "state_saves w' = state_saves w @ ss \<Longrightarrow> saved w w' = ss"
  by (simp add: saved_def)

lemma main_with_printed:
  assumes "selected_unit units w = Inr u"
    and "\<And>u w. stdout_json (snd (analyze u w)) = stdout_json w"
  shows "printed w (snd (main_with units analyze w)) = [fst (analyze u (snd (get_state w)))]"
  by (rule printed_append) (simp add: main_with_stdout [OF assms(1)] assms(2) get_state_world)

lemma main_with_raised_printed:
  assumes "selected_unit units w = Inl e"
  shows "printed w (snd (main_with units analyze w)) = []"
  by (rule printed_append) (simp add: main_with_raises [OF assms] get_state_world)

lemma main_with_saved:
  assumes "units \<noteq> []"
    and "\<And>u w. state_saves (snd (analyze u w)) = state_saves w"
  shows "\<forall>st \<in> set (saved w (snd (main_with units analyze w))).
           0 \<le> current_index st \<and> current_index st < int (length units)"
proof (cases "selected_unit units w")
  case (Inl e)
  have "saved w (snd (main_with units analyze w)) =
          (case state_file w of
             None \<Rightarrow> [\<lparr>current_index = 0, completed = [], last_analyzed = None\<rparr>]
           | Some st \<Rightarrow> [])"
    by (rule saved_append) (simp add: main_with_raises [OF Inl] get_state_saves)
  with assms(1) show ?thesis
    by (simp split: option.split)
next
  case (Inr u)
  from main_with_saves [OF Inr, of analyze] obtain st where
    st: "current_index st = (selected_index units w + 1) mod int (length units)"
    and sv: "state_saves (snd (main_with units analyze w)) =
       state_saves (snd (analyze u (snd (get_state w)))) @ [st]"
    by blast
  have "saved w (snd (main_with units analyze w)) =
          (case state_file w of
             None \<Rightarrow> [\<lparr>current_index = 0, completed = [], last_analyzed = None\<rparr>]
           | Some st \<Rightarrow> []) @ [st]"
    by (rule saved_append) (simp add: sv assms(2) get_state_saves)
  moreover from assms(1) have "0 < int (length units)"
    by simp
  ultimately show ?thesis
    using st by (auto split: option.split)
qed

lemma main_with_next_unit:
  assumes "selected_unit units w = Inr u"
  shows "selected_unit units (snd (main_with units analyze w)) =
           Inr (units ! nat ((selected_index units w + 1) mod int (length units)))"
proof -
  from assms have "units \<noteq> []"
    by (auto simp: selected_unit_def py_getitem_def split: if_splits)
  then have pos: "0 < int (length units)"
    by simp
  let ?w' = "snd (main_with units analyze w)"
  have s: "start_index ?w' = (selected_index units w + 1) mod int (length units)"
    by (rule main_with_start_index [OF assms])
  have "0 \<le> start_index ?w'" and "start_index ?w' < int (length units)"
    using pos by (simp_all add: s)
  then show ?thesis
    using selected_in_range(2) [of ?w' units] s by simp
qed

section \<open>C1: the results log\<close>

text \<open>
  C1, as the code has it: a run never rewrites the results log, it only appends to it. A run
  that selects a unit appends exactly one record when the unit's directory exists and none
  when it does not (the guard at the head of \<^verbatim>\<open>analyze_module\<close> and \<^verbatim>\<open>analyze_crate\<close>
  returns before the log is opened); a run whose unit selection raises appends nothing.
\<close>

theorem record_appended_iff_unit_exists:
  "results_file (snd (optimize_main re w)) =
     results_file w @ appended w (snd (optimize_main re w))
   \<and> results_file (snd (testgaps_main re w)) =
     results_file w @ appended w (snd (testgaps_main re w))
   \<and> (selected_unit MODULES w = Inr u \<longrightarrow>
        length (appended w (snd (optimize_main re w))) = (if path_exists w u then 1 else 0))
   \<and> (selected_unit CRATES w = Inr u \<longrightarrow>
        length (appended w (snd (testgaps_main re w))) = (if path_exists w u then 1 else 0))
   \<and> (selected_unit MODULES w = Inl e \<longrightarrow> appended w (snd (optimize_main re w)) = [])
   \<and> (selected_unit CRATES w = Inl e \<longrightarrow> appended w (snd (testgaps_main re w)) = [])"
  by (simp add: appended_def optimize_results testgaps_results)

theorem record_appended_iff_unit_exists_witness:
  "selected_unit MODULES (one_file_world None ''keyrx_core'' ''.rs'' ''fn main() {}'') =
     Inr ''keyrx_core''
   \<and> selected_unit CRATES (one_file_world None ''keyrx_core'' ''.rs'' ''fn main() {}'') =
     Inr ''keyrx_core''
   \<and> path_exists (one_file_world None ''keyrx_core'' ''.rs'' ''fn main() {}'') ''keyrx_core''
   \<and> length (appended (one_file_world None ''keyrx_core'' ''.rs'' ''fn main() {}'')
        (snd (optimize_main sample_findall
           (one_file_world None ''keyrx_core'' ''.rs'' ''fn main() {}'')))) = 1
   \<and> length (appended (one_file_world None ''keyrx_core'' ''.rs'' ''fn main() {}'')
        (snd (testgaps_main sample_findall
           (one_file_world None ''keyrx_core'' ''.rs'' ''fn main() {}'')))) = 1
   \<and> selected_unit MODULES (empty_world (state_at (- 5))) = Inl IndexError
   \<and> selected_unit CRATES (empty_world (state_at (- 5))) = Inl IndexError
   \<and> appended (empty_world (state_at (- 5)))
        (snd (optimize_main sample_findall (empty_world (state_at (- 5))))) = []
   \<and> appended (empty_world (state_at (- 5)))
        (snd (testgaps_main sample_findall (empty_world (state_at (- 5))))) = []"
proof -
  let ?w = "one_file_world None ''keyrx_core'' ''.rs'' ''fn main() {}''"
  let ?v = "empty_world (state_at (- 5))"
  have m: "selected_unit MODULES ?w = Inr ''keyrx_core''"
    and c: "selected_unit CRATES ?w = Inr ''keyrx_core''"
    and p: "path_exists ?w ''keyrx_core''"
    by (simp_all add: selected_unit_def selected_index_def start_index_def one_file_world_def
        sample_world_def MODULES_def CRATES_def py_getitem_def)
  have mv: "selected_unit MODULES ?v = Inl IndexError"
    and cv: "selected_unit CRATES ?v = Inl IndexError"
    by (simp_all add: selected_unit_def selected_index_def start_index_def empty_world_def
        sample_world_def state_at_def MODULES_def CRATES_def py_getitem_def)
  show ?thesis
    using record_appended_iff_unit_exists [of sample_findall ?w "''keyrx_core''" IndexError]
      record_appended_iff_unit_exists [of sample_findall ?v "''keyrx_core''" IndexError]
      m c p mv cv
    by simp
qed

text \<open>
  C1 as stated fails where it is most explicit: on a first run in a tree without the
  directory \<^verbatim>\<open>keyrx_core\<close> each scanner selects that unit, exits with 1 and appends
  nothing.
\<close>

theorem missing_unit_appends_nothing:
  "selected_unit MODULES (empty_world None) = Inr ''keyrx_core''
   \<and> \<not> path_exists (empty_world None) ''keyrx_core''
   \<and> appended (empty_world None) (snd (optimize_main sample_findall (empty_world None))) = []
   \<and> selected_unit CRATES (empty_world None) = Inr ''keyrx_core''
   \<and> appended (empty_world None) (snd (testgaps_main sample_findall (empty_world None))) = []"
  by (simp add: appended_def optimize_results testgaps_results empty_world_selected)

section \<open>C3: both scanners as instances of the controller\<close>

lemma units_nonempty: "MODULES \<noteq> []" "CRATES \<noteq> []"
  by (simp_all add: MODULES_def CRATES_def)

lemma optimize_exit:
  assumes "selected_unit MODULES w = Inr u"
  shows "fst (optimize_main re w) = Exit (if path_exists w u then 0 else 1)"
  by (simp add: optimize_main_def main_with_exit [OF assms] analyze_module_keeps get_state_world)

lemma testgaps_exit:
  assumes "selected_unit CRATES w = Inr u"
  shows "fst (testgaps_main re w) = Exit (if path_exists w u then 0 else 1)"
  by (simp add: testgaps_main_def main_with_exit [OF assms] analyze_crate_keeps get_state_world)

lemma optimize_printed:
  assumes "selected_unit MODULES w = Inr u"
  shows "printed w (snd (optimize_main re w)) = [fst (analyze_module re u (snd (get_state w)))]"
  unfolding optimize_main_def
  by (rule main_with_printed [OF assms]) (rule analyze_module_keeps)

lemma testgaps_printed:
  assumes "selected_unit CRATES w = Inr u"
  shows "printed w (snd (testgaps_main re w)) = [fst (analyze_crate re u (snd (get_state w)))]"
  unfolding testgaps_main_def
  by (rule main_with_printed [OF assms]) (rule analyze_crate_keeps)

lemma optimize_printed_unit:
  assumes "selected_unit MODULES w = Inr u"
  shows "map unit_of (printed w (snd (optimize_main re w))) = [u]"
  by (simp add: optimize_printed [OF assms] analyze_module_keeps)

lemma testgaps_printed_unit:
  assumes "selected_unit CRATES w = Inr u"
  shows "map unit_of (printed w (snd (testgaps_main re w))) = [u]"
  by (simp add: testgaps_printed [OF assms] analyze_crate_keeps)

text \<open>
  C3: in a run whose selected unit has no directory, the scanner's result, printed by
  \<^verbatim>\<open>main\<close>, is the failure object with \<^verbatim>\<open>"success": false\<close> and the error
  \<^verbatim>\<open>"Module not found"\<close> (\<^verbatim>\<open>"Crate not found"\<close> for the test-gap scanner; the object
  also names the unit), the exit code is 1, and the index left in the state file is the
  selected index plus one modulo the number of units, so that the next run selects the
  following unit. The selected index is the index the run started from whenever that one is
  within the list.
\<close>

theorem missing_unit_failure:
  "(selected_unit MODULES w = Inr u \<and> \<not> path_exists w u \<longrightarrow>
      printed w (snd (optimize_main re w)) =
        [JObj [(''success'', JBool False), (''module'', JStr u),
               (''error'', JStr ''Module not found'')]]
      \<and> map (field ''success'') (printed w (snd (optimize_main re w))) = [Some (JBool False)]
      \<and> map (field ''error'') (printed w (snd (optimize_main re w))) =
          [Some (JStr ''Module not found'')]
      \<and> fst (optimize_main re w) = Exit 1
      \<and> start_index (snd (optimize_main re w)) =
          (selected_index MODULES w + 1) mod int (length MODULES)
      \<and> selected_unit MODULES (snd (optimize_main re w)) =
          Inr (MODULES ! nat ((selected_index MODULES w + 1) mod int (length MODULES))))
   \<and> (selected_unit CRATES w = Inr u \<and> \<not> path_exists w u \<longrightarrow>
      printed w (snd (testgaps_main re w)) =
        [JObj [(''success'', JBool False), (''crate'', JStr u),
               (''error'', JStr ''Crate not found'')]]
      \<and> map (field ''success'') (printed w (snd (testgaps_main re w))) = [Some (JBool False)]
      \<and> map (field ''error'') (printed w (snd (testgaps_main re w))) =
          [Some (JStr ''Crate not found'')]
      \<and> fst (testgaps_main re w) = Exit 1
      \<and> start_index (snd (testgaps_main re w)) =
          (selected_index CRATES w + 1) mod int (length CRATES)
      \<and> selected_unit CRATES (snd (testgaps_main re w)) =
          Inr (CRATES ! nat ((selected_index CRATES w + 1) mod int (length CRATES))))
   \<and> (0 \<le> start_index w \<and> start_index w < int (length MODULES) \<longrightarrow>
        selected_index MODULES w = start_index w)
   \<and> (0 \<le> start_index w \<and> start_index w < int (length CRATES) \<longrightarrow>
        selected_index CRATES w = start_index w)"
proof (intro conjI impI)
  assume a: "selected_unit MODULES w = Inr u \<and> \<not> path_exists w u"
  then have sel: "selected_unit MODULES w = Inr u" and miss: "\<not> path_exists (snd (get_state w)) u"
    by (simp_all add: get_state_world)
  show p: "printed w (snd (optimize_main re w)) =
        [JObj [(''success'', JBool False), (''module'', JStr u),
               (''error'', JStr ''Module not found'')]]"
    by (simp add: optimize_printed [OF sel] analyze_module_missing [OF miss])
  show "map (field ''success'') (printed w (snd (optimize_main re w))) = [Some (JBool False)]"
    by (simp add: p)
  show "map (field ''error'') (printed w (snd (optimize_main re w))) =
          [Some (JStr ''Module not found'')]"
    by (simp add: p)
  show "fst (optimize_main re w) = Exit 1"
    using a by (simp add: optimize_exit [OF sel])
  show "start_index (snd (optimize_main re w)) =
          (selected_index MODULES w + 1) mod int (length MODULES)"
    unfolding optimize_main_def by (rule main_with_start_index [OF sel])
  show "selected_unit MODULES (snd (optimize_main re w)) =
          Inr (MODULES ! nat ((selected_index MODULES w + 1) mod int (length MODULES)))"
    unfolding optimize_main_def by (rule main_with_next_unit [OF sel])
next
  assume a: "selected_unit CRATES w = Inr u \<and> \<not> path_exists w u"
  then have sel: "selected_unit CRATES w = Inr u" and miss: "\<not> path_exists (snd (get_state w)) u"
    by (simp_all add: get_state_world)
  show p: "printed w (snd (testgaps_main re w)) =
        [JObj [(''success'', JBool False), (''crate'', JStr u),
               (''error'', JStr ''Crate not found'')]]"
    by (simp add: testgaps_printed [OF sel] analyze_crate_missing [OF miss])
  show "map (field ''success'') (printed w (snd (testgaps_main re w))) = [Some (JBool False)]"
    by (simp add: p)
  show "map (field ''error'') (printed w (snd (testgaps_main re w))) =
          [Some (JStr ''Crate not found'')]"
    by (simp add: p)
  show "fst (testgaps_main re w) = Exit 1"
    using a by (simp add: testgaps_exit [OF sel])
  show "start_index (snd (testgaps_main re w)) =
          (selected_index CRATES w + 1) mod int (length CRATES)"
    unfolding testgaps_main_def by (rule main_with_start_index [OF sel])
  show "selected_unit CRATES (snd (testgaps_main re w)) =
          Inr (CRATES ! nat ((selected_index CRATES w + 1) mod int (length CRATES)))"
    unfolding testgaps_main_def by (rule main_with_next_unit [OF sel])
next
  assume "0 \<le> start_index w \<and> start_index w < int (length MODULES)"
  then show "selected_index MODULES w = start_index w"
    by (simp add: selected_in_range)
next
  assume "0 \<le> start_index w \<and> start_index w < int (length CRATES)"
  then show "selected_index CRATES w = start_index w"
    by (simp add: selected_in_range)
qed

theorem missing_unit_failure_witness:
  "selected_unit MODULES (empty_world (state_at 2)) = Inr ''keyrx_compiler''
   \<and> selected_unit CRATES (empty_world (state_at 2)) = Inr ''keyrx_compiler''
   \<and> \<not> path_exists (empty_world (state_at 2)) ''keyrx_compiler''
   \<and> start_index (empty_world (state_at 2)) = 2
   \<and> fst (optimize_main sample_findall (empty_world (state_at 2))) = Exit 1
   \<and> fst (testgaps_main sample_findall (empty_world (state_at 2))) = Exit 1
   \<and> start_index (snd (optimize_main sample_findall (empty_world (state_at 2)))) = 3
   \<and> start_index (snd (testgaps_main sample_findall (empty_world (state_at 2)))) = 0
   \<and> selected_unit MODULES (snd (optimize_main sample_findall (empty_world (state_at 2)))) =
       Inr ''keyrx_ui/src''
   \<and> selected_unit CRATES (snd (testgaps_main sample_findall (empty_world (state_at 2)))) =
       Inr ''keyrx_core''"
proof -
  let ?w = "empty_world (state_at 2)"
  have m: "selected_unit MODULES ?w = Inr ''keyrx_compiler''"
    and c: "selected_unit CRATES ?w = Inr ''keyrx_compiler''"
    and p: "\<not> path_exists ?w ''keyrx_compiler''"
    and s: "start_index ?w = 2"
    and im: "selected_index MODULES ?w = 2"
    and ic: "selected_index CRATES ?w = 2"
    by (simp_all add: selected_unit_def selected_index_def start_index_def empty_world_def
        sample_world_def state_at_def MODULES_def CRATES_def py_getitem_def)
  have l: "int (length MODULES) = 4" "int (length CRATES) = 3"
    "MODULES ! 3 = ''keyrx_ui/src''" "CRATES ! 0 = ''keyrx_core''"
    by (simp_all add: MODULES_def CRATES_def)
  show ?thesis
    using missing_unit_failure [of ?w "''keyrx_compiler''" sample_findall] m c p s im ic l
    by simp
qed

section \<open>C4 and C10: the index kept in the state file\<close>

lemma units_length: "int (length MODULES) = 4" "int (length CRATES) = 3"
  by (simp_all add: MODULES_def CRATES_def)

lemma optimize_start_index:
  assumes "selected_unit MODULES w = Inr u"
  shows "start_index (snd (optimize_main re w)) = (selected_index MODULES w + 1) mod 4"
  unfolding optimize_main_def
  by (simp add: main_with_start_index [OF assms] units_length)

lemma testgaps_start_index:
  assumes "selected_unit CRATES w = Inr u"
  shows "start_index (snd (testgaps_main re w)) = (selected_index CRATES w + 1) mod 3"
  unfolding testgaps_main_def
  by (simp add: main_with_start_index [OF assms] units_length)

lemma main_with_saved_nonempty:
  assumes "selected_unit units w = Inr u"
    and "\<And>u w. state_saves (snd (analyze u w)) = state_saves w"
  shows "saved w (snd (main_with units analyze w)) \<noteq> []"
proof -
  from main_with_saves [OF assms(1), of analyze] obtain st where
    "state_saves (snd (main_with units analyze w)) =
       state_saves (snd (analyze u (snd (get_state w)))) @ [st]"
    by blast
  then show ?thesis
    by (simp add: saved_def assms(2) get_state_saves)
qed

text \<open>
  C4: every state written to the state file during a run has \<open>0 \<le> current_index < N\<close>,
  for the \<open>N\<close> units of the scanner; and a run that reads a \<open>current_index \<ge> N\<close> takes
  0 instead: it analyses the first unit, ends with an exit code rather than an exception,
  and leaves the index 1.
\<close>

theorem saved_index_in_range:
  "(\<forall>st \<in> set (saved w (snd (optimize_main re w))).
      0 \<le> current_index st \<and> current_index st < int (length MODULES))
   \<and> (\<forall>st \<in> set (saved w (snd (testgaps_main re w))).
      0 \<le> current_index st \<and> current_index st < int (length CRATES))
   \<and> (int (length MODULES) \<le> start_index w \<longrightarrow>
        selected_index MODULES w = 0
        \<and> selected_unit MODULES w = Inr (MODULES ! 0)
        \<and> map unit_of (printed w (snd (optimize_main re w))) = [MODULES ! 0]
        \<and> fst (optimize_main re w) = Exit (if path_exists w (MODULES ! 0) then 0 else 1)
        \<and> start_index (snd (optimize_main re w)) = 1)
   \<and> (int (length CRATES) \<le> start_index w \<longrightarrow>
        selected_index CRATES w = 0
        \<and> selected_unit CRATES w = Inr (CRATES ! 0)
        \<and> map unit_of (printed w (snd (testgaps_main re w))) = [CRATES ! 0]
        \<and> fst (testgaps_main re w) = Exit (if path_exists w (CRATES ! 0) then 0 else 1)
        \<and> start_index (snd (testgaps_main re w)) = 1)"
proof (intro conjI impI)
  show "\<forall>st \<in> set (saved w (snd (optimize_main re w))).
      0 \<le> current_index st \<and> current_index st < int (length MODULES)"
    unfolding optimize_main_def
    by (rule main_with_saved [OF units_nonempty(1)]) (rule analyze_module_keeps)
  show "\<forall>st \<in> set (saved w (snd (testgaps_main re w))).
      0 \<le> current_index st \<and> current_index st < int (length CRATES)"
    unfolding testgaps_main_def
    by (rule main_with_saved [OF units_nonempty(2)]) (rule analyze_crate_keeps)
next
  assume a: "int (length MODULES) \<le> start_index w"
  show i: "selected_index MODULES w = 0"
    by (rule selected_wrapped(1) [OF a units_nonempty(1)])
  show sel: "selected_unit MODULES w = Inr (MODULES ! 0)"
    by (rule selected_wrapped(2) [OF a units_nonempty(1)])
  show "map unit_of (printed w (snd (optimize_main re w))) = [MODULES ! 0]"
    by (rule optimize_printed_unit [OF sel])
  show "fst (optimize_main re w) = Exit (if path_exists w (MODULES ! 0) then 0 else 1)"
    by (rule optimize_exit [OF sel])
  show "start_index (snd (optimize_main re w)) = 1"
    by (simp add: optimize_start_index [OF sel] i)
next
  assume a: "int (length CRATES) \<le> start_index w"
  show i: "selected_index CRATES w = 0"
    by (rule selected_wrapped(1) [OF a units_nonempty(2)])
  show sel: "selected_unit CRATES w = Inr (CRATES ! 0)"
    by (rule selected_wrapped(2) [OF a units_nonempty(2)])
  show "map unit_of (printed w (snd (testgaps_main re w))) = [CRATES ! 0]"
    by (rule testgaps_printed_unit [OF sel])
  show "fst (testgaps_main re w) = Exit (if path_exists w (CRATES ! 0) then 0 else 1)"
    by (rule testgaps_exit [OF sel])
  show "start_index (snd (testgaps_main re w)) = 1"
    by (simp add: testgaps_start_index [OF sel] i)
qed

theorem saved_index_in_range_witness:
  "int (length MODULES) \<le> start_index (empty_world (state_at 7))
   \<and> int (length CRATES) \<le> start_index (empty_world (state_at 7))
   \<and> hd (saved (empty_world (state_at 7))
        (snd (optimize_main sample_findall (empty_world (state_at 7))))) \<in>
      set (saved (empty_world (state_at 7))
        (snd (optimize_main sample_findall (empty_world (state_at 7)))))
   \<and> hd (saved (empty_world (state_at 7))
        (snd (testgaps_main sample_findall (empty_world (state_at 7))))) \<in>
      set (saved (empty_world (state_at 7))
        (snd (testgaps_main sample_findall (empty_world (state_at 7)))))
   \<and> current_index (hd (saved (empty_world (state_at 7))
        (snd (optimize_main sample_findall (empty_world (state_at 7)))))) < 4
   \<and> current_index (hd (saved (empty_world (state_at 7))
        (snd (testgaps_main sample_findall (empty_world (state_at 7)))))) < 3
   \<and> map unit_of (printed (empty_world (state_at 7))
        (snd (optimize_main sample_findall (empty_world (state_at 7))))) = [''keyrx_core'']
   \<and> map unit_of (printed (empty_world (state_at 7))
        (snd (testgaps_main sample_findall (empty_world (state_at 7))))) = [''keyrx_core'']
   \<and> fst (optimize_main sample_findall (empty_world (state_at 7))) = Exit 1
   \<and> fst (testgaps_main sample_findall (empty_world (state_at 7))) = Exit 1
   \<and> start_index (snd (optimize_main sample_findall (empty_world (state_at 7)))) = 1
   \<and> start_index (snd (testgaps_main sample_findall (empty_world (state_at 7)))) = 1"
proof -
  let ?w = "empty_world (state_at 7)"
  have s: "start_index ?w = 7" and p: "\<not> path_exists ?w ''keyrx_core''"
    by (simp_all add: start_index_def empty_world_def sample_world_def state_at_def)
  have m: "selected_unit MODULES ?w = Inr ''keyrx_core''"
    and c: "selected_unit CRATES ?w = Inr ''keyrx_core''"
    by (simp_all add: selected_unit_def selected_index_def s MODULES_def CRATES_def
        py_getitem_def)
  have z: "MODULES ! 0 = ''keyrx_core''" "CRATES ! 0 = ''keyrx_core''"
    by (simp_all add: MODULES_def CRATES_def)
  have nm: "saved ?w (snd (optimize_main sample_findall ?w)) \<noteq> []"
    unfolding optimize_main_def
    by (rule main_with_saved_nonempty [OF m]) (rule analyze_module_keeps)
  have nc: "saved ?w (snd (testgaps_main sample_findall ?w)) \<noteq> []"
    unfolding testgaps_main_def
    by (rule main_with_saved_nonempty [OF c]) (rule analyze_crate_keeps)
  show ?thesis
    using saved_index_in_range [of ?w sample_findall] s p z nm nc units_length
    by simp
qed

text \<open>
  C10: a run that reads a negative \<open>current_index\<close> not below \<open>-N\<close> keeps it (the wrap to 0
  is for indices that are too large only), analyses the unit at position
  \<open>N + current_index\<close>, ends with an exit code, and saves
  \<open>(current_index + 1) mod N\<close>, which lies in \<open>[0, N)\<close>; a run that reads an index below
  \<open>-N\<close> ends with the \<^verbatim>\<open>IndexError\<close> of the unit selection and saves nothing.
\<close>

theorem negative_index_selects_from_end:
  "(- int (length MODULES) \<le> start_index w \<and> start_index w < 0 \<longrightarrow>
      selected_index MODULES w = start_index w
      \<and> selected_unit MODULES w = Inr (MODULES ! nat (int (length MODULES) + start_index w))
      \<and> map unit_of (printed w (snd (optimize_main re w))) =
          [MODULES ! nat (int (length MODULES) + start_index w)]
      \<and> fst (optimize_main re w) =
          Exit (if path_exists w (MODULES ! nat (int (length MODULES) + start_index w))
                then 0 else 1)
      \<and> start_index (snd (optimize_main re w)) = (start_index w + 1) mod int (length MODULES)
      \<and> 0 \<le> start_index (snd (optimize_main re w))
      \<and> start_index (snd (optimize_main re w)) < int (length MODULES))
   \<and> (- int (length CRATES) \<le> start_index w \<and> start_index w < 0 \<longrightarrow>
      selected_index CRATES w = start_index w
      \<and> selected_unit CRATES w = Inr (CRATES ! nat (int (length CRATES) + start_index w))
      \<and> map unit_of (printed w (snd (testgaps_main re w))) =
          [CRATES ! nat (int (length CRATES) + start_index w)]
      \<and> fst (testgaps_main re w) =
          Exit (if path_exists w (CRATES ! nat (int (length CRATES) + start_index w))
                then 0 else 1)
      \<and> start_index (snd (testgaps_main re w)) = (start_index w + 1) mod int (length CRATES)
      \<and> 0 \<le> start_index (snd (testgaps_main re w))
      \<and> start_index (snd (testgaps_main re w)) < int (length CRATES))
   \<and> (start_index w < - int (length MODULES) \<longrightarrow>
        fst (optimize_main re w) = Raised IndexError
        \<and> saved w (snd (optimize_main re w)) = [])
   \<and> (start_index w < - int (length CRATES) \<longrightarrow>
        fst (testgaps_main re w) = Raised IndexError
        \<and> saved w (snd (testgaps_main re w)) = [])"
proof (intro conjI impI)
  assume a: "- int (length MODULES) \<le> start_index w \<and> start_index w < 0"
  show i: "selected_index MODULES w = start_index w"
    using a by (simp add: selected_negative)
  show sel: "selected_unit MODULES w =
      Inr (MODULES ! nat (int (length MODULES) + start_index w))"
    using a by (simp add: selected_negative)
  show "map unit_of (printed w (snd (optimize_main re w))) =
          [MODULES ! nat (int (length MODULES) + start_index w)]"
    by (rule optimize_printed_unit [OF sel])
  show "fst (optimize_main re w) =
          Exit (if path_exists w (MODULES ! nat (int (length MODULES) + start_index w))
                then 0 else 1)"
    by (rule optimize_exit [OF sel])
  show s: "start_index (snd (optimize_main re w)) =
      (start_index w + 1) mod int (length MODULES)"
    by (simp add: optimize_start_index [OF sel] i units_length)
  show "0 \<le> start_index (snd (optimize_main re w))"
    by (simp add: s units_length)
  show "start_index (snd (optimize_main re w)) < int (length MODULES)"
    by (simp add: s units_length)
next
  assume a: "- int (length CRATES) \<le> start_index w \<and> start_index w < 0"
  show i: "selected_index CRATES w = start_index w"
    using a by (simp add: selected_negative)
  show sel: "selected_unit CRATES w =
      Inr (CRATES ! nat (int (length CRATES) + start_index w))"
    using a by (simp add: selected_negative)
  show "map unit_of (printed w (snd (testgaps_main re w))) =
          [CRATES ! nat (int (length CRATES) + start_index w)]"
    by (rule testgaps_printed_unit [OF sel])
  show "fst (testgaps_main re w) =
          Exit (if path_exists w (CRATES ! nat (int (length CRATES) + start_index w))
                then 0 else 1)"
    by (rule testgaps_exit [OF sel])
  show s: "start_index (snd (testgaps_main re w)) =
      (start_index w + 1) mod int (length CRATES)"
    by (simp add: testgaps_start_index [OF sel] i units_length)
  show "0 \<le> start_index (snd (testgaps_main re w))"
    by (simp add: s units_length)
  show "start_index (snd (testgaps_main re w)) < int (length CRATES)"
    by (simp add: s units_length)
next
  assume a: "start_index w < - int (length MODULES)"
  then have sel: "selected_unit MODULES w = Inl IndexError"
    by (rule selected_below)
  from a have "state_file w \<noteq> None"
    by (auto simp: start_index_def split: option.splits)
  then have keep: "state_saves (snd (get_state w)) = state_saves w"
    by (auto simp: get_state_saves split: option.splits)
  show "fst (optimize_main re w) = Raised IndexError"
    by (simp add: optimize_main_def main_with_raises [OF sel])
  show "saved w (snd (optimize_main re w)) = []"
    by (simp add: optimize_main_def main_with_raises [OF sel] saved_def keep)
next
  assume a: "start_index w < - int (length CRATES)"
  then have sel: "selected_unit CRATES w = Inl IndexError"
    by (rule selected_below)
  from a have "state_file w \<noteq> None"
    by (auto simp: start_index_def split: option.splits)
  then have keep: "state_saves (snd (get_state w)) = state_saves w"
    by (auto simp: get_state_saves split: option.splits)
  show "fst (testgaps_main re w) = Raised IndexError"
    by (simp add: testgaps_main_def main_with_raises [OF sel])
  show "saved w (snd (testgaps_main re w)) = []"
    by (simp add: testgaps_main_def main_with_raises [OF sel] saved_def keep)
qed

theorem negative_index_selects_from_end_witness:
  "- int (length MODULES) \<le> start_index (empty_world (state_at (- 1)))
   \<and> - int (length CRATES) \<le> start_index (empty_world (state_at (- 1)))
   \<and> start_index (empty_world (state_at (- 1))) < 0
   \<and> map unit_of (printed (empty_world (state_at (- 1)))
        (snd (optimize_main sample_findall (empty_world (state_at (- 1)))))) =
      [''keyrx_ui/src'']
   \<and> map unit_of (printed (empty_world (state_at (- 1)))
        (snd (testgaps_main sample_findall (empty_world (state_at (- 1)))))) =
      [''keyrx_compiler'']
   \<and> fst (optimize_main sample_findall (empty_world (state_at (- 1)))) = Exit 1
   \<and> fst (testgaps_main sample_findall (empty_world (state_at (- 1)))) = Exit 1
   \<and> start_index (snd (optimize_main sample_findall (empty_world (state_at (- 1))))) = 0
   \<and> start_index (snd (testgaps_main sample_findall (empty_world (state_at (- 1))))) = 0
   \<and> start_index (empty_world (state_at (- 5))) < - int (length MODULES)
   \<and> start_index (empty_world (state_at (- 5))) < - int (length CRATES)
   \<and> fst (optimize_main sample_findall (empty_world (state_at (- 5)))) = Raised IndexError
   \<and> fst (testgaps_main sample_findall (empty_world (state_at (- 5)))) = Raised IndexError"
proof -
  let ?w = "empty_world (state_at (- 1))"
  let ?v = "empty_world (state_at (- 5))"
  have s: "start_index ?w = - 1" "start_index ?v = - 5"
    and p: "\<not> path_exists ?w ''keyrx_ui/src''" "\<not> path_exists ?w ''keyrx_compiler''"
    by (simp_all add: start_index_def empty_world_def sample_world_def state_at_def)
  have z: "MODULES ! 3 = ''keyrx_ui/src''" "CRATES ! 2 = ''keyrx_compiler''"
    by (simp_all add: MODULES_def CRATES_def)
  show ?thesis
    using negative_index_selects_from_end [of ?w sample_findall]
      negative_index_selects_from_end [of ?v sample_findall] s p z units_length
    by simp
qed

section \<open>C5: rotation\<close>

lemma main_with_in_range:
  assumes "0 \<le> start_index w" and "start_index w < int (length units)"
    and "\<And>u w. stdout_json (snd (analyze u w)) = stdout_json w"
    and "\<And>u w. unit_of (fst (analyze u w)) = u"
  shows "\<exists>r. stdout_json (snd (main_with units analyze w)) = stdout_json w @ [r] \<and>
             unit_of r = units ! nat (start_index w)"
    and "start_index (snd (main_with units analyze w)) =
           int ((nat (start_index w) + 1) mod length units)"
proof -
  have sel: "selected_unit units w = Inr (units ! nat (start_index w))"
    and i: "selected_index units w = start_index w"
    using assms(1,2) by (simp_all add: selected_in_range)
  show "\<exists>r. stdout_json (snd (main_with units analyze w)) = stdout_json w @ [r] \<and>
             unit_of r = units ! nat (start_index w)"
    by (simp add: main_with_stdout [OF sel] assms(3,4) get_state_world)
  have "start_index (snd (main_with units analyze w)) =
          (start_index w + 1) mod int (length units)"
    by (simp add: main_with_start_index [OF sel] i)
  also have "\<dots> = int ((nat (start_index w) + 1) mod length units)"
    using assms(1) by (simp add: zmod_int add.commute)
  finally show "start_index (snd (main_with units analyze w)) =
           int ((nat (start_index w) + 1) mod length units)" .
qed

lemma invocations_main_with:
  assumes "\<And>u w. stdout_json (snd (analyze u w)) = stdout_json w"
    and "\<And>u w. unit_of (fst (analyze u w)) = u"
  shows "0 \<le> start_index w \<Longrightarrow> start_index w < int (length units) \<Longrightarrow>
     (\<exists>ds. stdout_json (invocations (main_with units analyze) k w) = stdout_json w @ ds \<and>
        map unit_of ds =
          map (\<lambda>j. units ! ((nat (start_index w) + j) mod length units)) [0..<k]) \<and>
     start_index (invocations (main_with units analyze) k w) =
       int ((nat (start_index w) + k) mod length units)"
proof (induction k arbitrary: w)
  case 0
  then show ?case by simp
next
  case (Suc k)
  let ?n = "length units"
  let ?a = "nat (start_index w)"
  let ?w1 = "snd (main_with units analyze w)"
  from Suc.prems have pos: "0 < ?n" and a: "?a < ?n"
    by auto
  from main_with_in_range(1) [OF Suc.prems assms] obtain r where
    r: "stdout_json ?w1 = stdout_json w @ [r]" "unit_of r = units ! ?a"
    by blast
  have s1: "start_index ?w1 = int ((?a + 1) mod ?n)"
    by (rule main_with_in_range(2) [OF Suc.prems assms])
  then have r1: "0 \<le> start_index ?w1" "start_index ?w1 < int ?n"
    using pos by simp_all
  from Suc.IH [OF r1] obtain ds where
    ds: "stdout_json (invocations (main_with units analyze) k ?w1) = stdout_json ?w1 @ ds"
      "map unit_of ds = map (\<lambda>j. units ! ((nat (start_index ?w1) + j) mod ?n)) [0..<k]"
    and e: "start_index (invocations (main_with units analyze) k ?w1) =
      int ((nat (start_index ?w1) + k) mod ?n)"
    by blast
  have step: "(nat (start_index ?w1) + j) mod ?n = (?a + Suc j) mod ?n" for j
    by (simp add: s1 mod_add_left_eq)
  have "map unit_of (r # ds) = map (\<lambda>j. units ! ((?a + j) mod ?n)) [0..<Suc k]"
  proof -
    have "[0..<Suc k] = 0 # map Suc [0..<k]"
      by (simp add: map_Suc_upt upt_conv_Cons del: upt_Suc)
    then show ?thesis
      using a by (simp add: r(2) ds(2) step del: upt_Suc)
  qed
  moreover have "stdout_json (invocations (main_with units analyze) (Suc k) w) =
      stdout_json w @ (r # ds)"
    by (simp add: ds(1) r(1))
  moreover have "start_index (invocations (main_with units analyze) (Suc k) w) =
      int ((?a + Suc k) mod ?n)"
    by (simp add: e step)
  ultimately show ?case
    by blast
qed

lemma rotate_by_index:
  assumes "a < length xs"
  shows "map (\<lambda>j. xs ! ((a + j) mod length xs)) [0..<length xs] = rotate a xs"
  by (rule nth_equalityI) (simp_all add: nth_rotate)

lemma full_cycle:
  assumes "\<And>u w. stdout_json (snd (analyze u w)) = stdout_json w"
    and "\<And>u w. unit_of (fst (analyze u w)) = u"
    and "0 \<le> start_index w" and "start_index w < int (length units)"
  shows "map unit_of (printed w (invocations (main_with units analyze) (length units) w)) =
           rotate (nat (start_index w)) units"
    and "start_index (invocations (main_with units analyze) (length units) w) = start_index w"
proof -
  from assms(3,4) have a: "nat (start_index w) < length units"
    by simp
  from invocations_main_with [OF assms(1,2) assms(3,4), of "length units"] obtain ds where
    ds: "stdout_json (invocations (main_with units analyze) (length units) w) =
           stdout_json w @ ds"
      "map unit_of ds =
         map (\<lambda>j. units ! ((nat (start_index w) + j) mod length units)) [0..<length units]"
    and e: "start_index (invocations (main_with units analyze) (length units) w) =
      int ((nat (start_index w) + length units) mod length units)"
    by blast
  show "map unit_of (printed w (invocations (main_with units analyze) (length units) w)) =
           rotate (nat (start_index w)) units"
    by (simp add: printed_append [OF ds(1)] ds(2) rotate_by_index [OF a])
  show "start_index (invocations (main_with units analyze) (length units) w) = start_index w"
    using a assms(3) by (simp add: e)
qed

lemma units_distinct: "distinct MODULES" "distinct CRATES"
  by (simp_all add: MODULES_def CRATES_def)

lemma mset_rotate: "mset (rotate n xs) = mset xs"
proof -
  let ?k = "n mod length xs"
  have "mset (rotate n xs) = mset (drop ?k xs) + mset (take ?k xs)"
    by (simp add: rotate_drop_take)
  also have "\<dots> = mset (take ?k xs @ drop ?k xs)"
    by (simp only: mset_append add.commute)
  finally show ?thesis
    by simp
qed

text \<open>
  C5: from any index within the list, as many consecutive runs as there are units analyse
  the units in list order starting at that index and wrapping around, hence each unit
  exactly once (the lists have no repetitions), and leave the index they started from.
\<close>

theorem round_robin:
  "(0 \<le> start_index w \<and> start_index w < int (length MODULES) \<longrightarrow>
      map unit_of (printed w (invocations (optimize_main re) (length MODULES) w)) =
        rotate (nat (start_index w)) MODULES
      \<and> mset (map unit_of (printed w (invocations (optimize_main re) (length MODULES) w))) =
        mset MODULES
      \<and> start_index (invocations (optimize_main re) (length MODULES) w) = start_index w)
   \<and> (0 \<le> start_index w \<and> start_index w < int (length CRATES) \<longrightarrow>
      map unit_of (printed w (invocations (testgaps_main re) (length CRATES) w)) =
        rotate (nat (start_index w)) CRATES
      \<and> mset (map unit_of (printed w (invocations (testgaps_main re) (length CRATES) w))) =
        mset CRATES
      \<and> start_index (invocations (testgaps_main re) (length CRATES) w) = start_index w)
   \<and> distinct MODULES \<and> distinct CRATES"
proof (intro conjI impI)
  assume a: "0 \<le> start_index w \<and> start_index w < int (length MODULES)"
  have run: "optimize_main re = main_with MODULES (analyze_module re)"
    by (simp add: optimize_main_def fun_eq_iff)
  show m: "map unit_of (printed w (invocations (optimize_main re) (length MODULES) w)) =
        rotate (nat (start_index w)) MODULES"
    unfolding run using a
    by (intro full_cycle(1)) (simp_all add: analyze_module_keeps)
  show "mset (map unit_of (printed w (invocations (optimize_main re) (length MODULES) w))) =
        mset MODULES"
    by (simp add: m mset_rotate)
  show "start_index (invocations (optimize_main re) (length MODULES) w) = start_index w"
    unfolding run using a
    by (intro full_cycle(2)) (simp_all add: analyze_module_keeps)
next
  assume a: "0 \<le> start_index w \<and> start_index w < int (length CRATES)"
  have run: "testgaps_main re = main_with CRATES (analyze_crate re)"
    by (simp add: testgaps_main_def fun_eq_iff)
  show m: "map unit_of (printed w (invocations (testgaps_main re) (length CRATES) w)) =
        rotate (nat (start_index w)) CRATES"
    unfolding run using a
    by (intro full_cycle(1)) (simp_all add: analyze_crate_keeps)
  show "mset (map unit_of (printed w (invocations (testgaps_main re) (length CRATES) w))) =
        mset CRATES"
    by (simp add: m mset_rotate)
  show "start_index (invocations (testgaps_main re) (length CRATES) w) = start_index w"
    unfolding run using a
    by (intro full_cycle(2)) (simp_all add: analyze_crate_keeps)
qed (rule units_distinct)+

theorem round_robin_witness:
  "0 \<le> start_index (empty_world (state_at 2))
   \<and> start_index (empty_world (state_at 2)) < int (length MODULES)
   \<and> start_index (empty_world (state_at 2)) < int (length CRATES)
   \<and> map unit_of (printed (empty_world (state_at 2))
        (invocations (optimize_main sample_findall) (length MODULES)
           (empty_world (state_at 2)))) =
      [''keyrx_compiler'', ''keyrx_ui/src'', ''keyrx_core'', ''keyrx_daemon'']
   \<and> map unit_of (printed (empty_world (state_at 2))
        (invocations (testgaps_main sample_findall) (length CRATES)
           (empty_world (state_at 2)))) =
      [''keyrx_compiler'', ''keyrx_core'', ''keyrx_daemon'']
   \<and> start_index (invocations (optimize_main sample_findall) (length MODULES)
        (empty_world (state_at 2))) = 2
   \<and> start_index (invocations (testgaps_main sample_findall) (length CRATES)
        (empty_world (state_at 2))) = 2"
proof -
  let ?w = "empty_world (state_at 2)"
  have s: "start_index ?w = 2"
    by (simp add: start_index_def empty_world_def sample_world_def state_at_def)
  have r: "rotate 2 MODULES = [''keyrx_compiler'', ''keyrx_ui/src'', ''keyrx_core'', ''keyrx_daemon'']"
    "rotate 2 CRATES = [''keyrx_compiler'', ''keyrx_core'', ''keyrx_daemon'']"
    by (simp_all add: MODULES_def CRATES_def rotate_def rotate1_def numeral_2_eq_2)
  show ?thesis
    using round_robin [of ?w sample_findall] s r units_length
    by simp
qed

section \<open>C9: pattern counting over files\<close>

lemma count_loop_sum:
  "count_loop findall exts ps cnt =
     cnt + sum_list (map (\<lambda>p. if is_file p \<and> suffix p \<in> set exts
                               then (case read_text p of
                                       Some content \<Rightarrow> length (findall content)
                                     | None \<Rightarrow> 0)
                               else 0) ps)"
  by (induction ps arbitrary: cnt) (simp_all split: option.split)

lemma count_loop_mset:
  assumes "mset ps = mset qs"
  shows "count_loop findall exts ps cnt = count_loop findall exts qs cnt"
proof -
  let ?g = "\<lambda>p. if is_file p \<and> suffix p \<in> set exts
                 then (case read_text p of
                         Some content \<Rightarrow> length (findall content)
                       | None \<Rightarrow> 0)
                 else 0"
  have "sum_list (map ?g ps) = sum_mset (image_mset ?g (mset ps))"
    by (simp flip: sum_mset_sum_list)
  also have "\<dots> = sum_mset (image_mset ?g (mset qs))"
    by (simp only: assms)
  also have "\<dots> = sum_list (map ?g qs)"
    by (simp flip: sum_mset_sum_list)
  finally show ?thesis
    by (simp only: count_loop_sum)
qed

lemma count_loop_append:
  "count_loop findall exts (ps @ qs) 0 =
     count_loop findall exts ps 0 + count_loop findall exts qs 0"
  by (simp add: count_loop_sum)

lemma count_loop_union:
  assumes "mset us = mset ps + mset qs"
  shows "count_loop findall exts us 0 =
     count_loop findall exts ps 0 + count_loop findall exts qs 0"
proof -
  from assms have "mset us = mset (ps @ qs)"
    by simp
  then have "count_loop findall exts us 0 = count_loop findall exts (ps @ qs) 0"
    by (rule count_loop_mset)
  then show ?thesis
    by (simp only: count_loop_append)
qed

lemma count_loop_files:
  "count_loop findall exts (filter is_file ps) cnt = count_loop findall exts ps cnt"
  by (induction ps arbitrary: cnt) simp_all

lemma count_loop_files_mset:
  assumes "mset (filter is_file ps) = mset (filter is_file qs)"
  shows "count_loop findall exts ps cnt = count_loop findall exts qs cnt"
proof -
  have "count_loop findall exts (filter is_file ps) cnt =
      count_loop findall exts (filter is_file qs) cnt"
    using assms by (rule count_loop_mset)
  then show ?thesis
    by (simp only: count_loop_files)
qed

lemma count_loop_files_union:
  assumes "mset (filter is_file us) = mset (filter is_file ps) + mset (filter is_file qs)"
  shows "count_loop findall exts us 0 =
     count_loop findall exts ps 0 + count_loop findall exts qs 0"
proof -
  have "count_loop findall exts (filter is_file us) 0 =
     count_loop findall exts (filter is_file ps) 0 + count_loop findall exts (filter is_file qs) 0"
    using assms by (rule count_loop_union)
  then show ?thesis
    by (simp only: count_loop_files)
qed

text \<open>
  C9: the files under a path are the entries of the list that \<^verbatim>\<open>rglob("*")\<close> yields that
  are regular files; the counters skip every other entry. When the files under one path
  are, in any order, those under two others taken together (the union of two disjoint sets
  of files, as for a directory that holds the two directories), each counter gives the sum
  of the two counts; and when two paths hold the same files in different orders, each
  counter gives the same count. This holds for every pattern and every regex engine.
\<close>

theorem pattern_count_additive:
  "(mset (filter is_file (rglob wu pu ''*'')) =
      mset (filter is_file (rglob wa pa ''*'')) + mset (filter is_file (rglob wb pb ''*'')) \<longrightarrow>
      count_patterns re wu pu pattern =
        count_patterns re wa pa pattern + count_patterns re wb pb pattern
      \<and> count_in_files re wu pu pattern extensions =
        count_in_files re wa pa pattern extensions + count_in_files re wb pb pattern extensions)
   \<and> (mset (filter is_file (rglob wa pa ''*'')) = mset (filter is_file (rglob wb pb ''*'')) \<longrightarrow>
      count_patterns re wa pa pattern = count_patterns re wb pb pattern
      \<and> count_in_files re wa pa pattern extensions = count_in_files re wb pb pattern extensions)"
  by (auto simp: count_patterns_def count_in_files_def Let_def
      intro: count_loop_files_union count_loop_files_mset)

theorem pattern_count_additive_witness:
  "mset (filter is_file (rglob (nested_world ''a.clone();'' ''b.clone(); c.clone();'') ''u'' ''*'')) =
     mset (filter is_file
       (rglob (nested_world ''a.clone();'' ''b.clone(); c.clone();'') ''u/a'' ''*'')) +
     mset (filter is_file
       (rglob (nested_world ''a.clone();'' ''b.clone(); c.clone();'') ''u/b'' ''*''))
   \<and> mset (rglob (nested_world ''a.clone();'' ''b.clone(); c.clone();'') ''u'' ''*'') \<noteq>
     mset (rglob (nested_world ''a.clone();'' ''b.clone(); c.clone();'') ''u/a'' ''*'') +
     mset (rglob (nested_world ''a.clone();'' ''b.clone(); c.clone();'') ''u/b'' ''*'')
   \<and> count_patterns sample_findall (nested_world ''a.clone();'' ''b.clone(); c.clone();'')
        ''u/a'' clone_pattern = 1
   \<and> count_patterns sample_findall (nested_world ''a.clone();'' ''b.clone(); c.clone();'')
        ''u/b'' clone_pattern = 2
   \<and> count_patterns sample_findall (nested_world ''a.clone();'' ''b.clone(); c.clone();'')
        ''u'' clone_pattern = 3
   \<and> count_in_files sample_findall (nested_world ''a.clone();'' ''b.clone(); c.clone();'')
        ''u'' clone_pattern None =
      count_in_files sample_findall (nested_world ''a.clone();'' ''b.clone(); c.clone();'')
        ''u/a'' clone_pattern None +
      count_in_files sample_findall (nested_world ''a.clone();'' ''b.clone(); c.clone();'')
        ''u/b'' clone_pattern None
   \<and> mset (filter is_file
        (rglob (nested_world ''a.clone();'' ''b.clone(); c.clone();'') ''u'' ''*'')) =
     mset (filter is_file
        (rglob (sample_world None [''v'']
            (\<lambda>p. [source_file ''.rs'' ''b.clone(); c.clone();'', directory,
                  source_file ''.rs'' ''a.clone();''])) ''v'' ''*''))
   \<and> count_patterns sample_findall
        (sample_world None [''v'']
           (\<lambda>p. [source_file ''.rs'' ''b.clone(); c.clone();'', directory,
                 source_file ''.rs'' ''a.clone();''])) ''v'' clone_pattern = 3"
proof -
  let ?w = "nested_world ''a.clone();'' ''b.clone(); c.clone();''"
  let ?v = "sample_world None [''v'']
            (\<lambda>p. [source_file ''.rs'' ''b.clone(); c.clone();'', directory,
                  source_file ''.rs'' ''a.clone();''])"
  have h1: "mset (filter is_file (rglob ?w ''u'' ''*'')) =
      mset (filter is_file (rglob ?w ''u/a'' ''*'')) +
      mset (filter is_file (rglob ?w ''u/b'' ''*''))"
    by (simp add: nested_world_def sample_world_def directory_def source_file_def)
  have h0: "mset (rglob ?w ''u'' ''*'') \<noteq>
      mset (rglob ?w ''u/a'' ''*'') + mset (rglob ?w ''u/b'' ''*'')"
  proof
    assume "mset (rglob ?w ''u'' ''*'') =
      mset (rglob ?w ''u/a'' ''*'') + mset (rglob ?w ''u/b'' ''*'')"
    then have "size (mset (rglob ?w ''u'' ''*'')) =
      size (mset (rglob ?w ''u/a'' ''*'') + mset (rglob ?w ''u/b'' ''*''))"
      by (rule arg_cong)
    then show False
      by (simp add: nested_world_def sample_world_def)
  qed
  have h2: "mset (filter is_file (rglob ?w ''u'' ''*'')) =
      mset (filter is_file (rglob ?v ''v'' ''*''))"
    by (simp add: nested_world_def sample_world_def directory_def source_file_def)
  have ca: "count_patterns sample_findall ?w ''u/a'' clone_pattern = 1"
    by code_simp
  have cb: "count_patterns sample_findall ?w ''u/b'' clone_pattern = 2"
    by code_simp
  have cu: "count_patterns sample_findall ?w ''u'' clone_pattern = 3"
    using pattern_count_additive [of ?w "''u''" ?w "''u/a''" ?w "''u/b''" sample_findall
        clone_pattern None] h1 ca cb
    by simp
  have fu: "count_in_files sample_findall ?w ''u'' clone_pattern None =
      count_in_files sample_findall ?w ''u/a'' clone_pattern None +
      count_in_files sample_findall ?w ''u/b'' clone_pattern None"
    using pattern_count_additive [of ?w "''u''" ?w "''u/a''" ?w "''u/b''" sample_findall
        clone_pattern None] h1
    by blast
  have cv: "count_patterns sample_findall ?v ''v'' clone_pattern = 3"
    using pattern_count_additive [of ?w "''u''" ?w "''u''" ?v "''v''" sample_findall
        clone_pattern None] h2 cu
    by simp
  show ?thesis
    by (intro conjI h1 h0 ca cb cu fu h2 cv)
qed

section \<open>Advisories of one analysis\<close>

lemma emitted_module:
  "emitted w (snd (analyze_module re n w)) =
     (if path_exists w n then fst (module_checks re w n n) else [])"
  by (simp add: emitted_def appended_def analyze_module_results list_field_def)

lemma emitted_crate:
  "emitted w (snd (analyze_crate re n w)) =
     (if path_exists w n then fst (crate_checks re w n) else [])"
  by (simp add: emitted_def appended_def analyze_crate_results list_field_def)

lemma module_advisories_present:
  "path_exists w n \<Longrightarrow> module_advisories re w n t = of_type t (fst (module_checks re w n n))"
  by (simp add: module_advisories_def emitted_module)

lemma crate_advisories_present:
  "path_exists w n \<Longrightarrow> crate_advisories re w n t = of_type t (fst (crate_checks re w n))"
  by (simp add: crate_advisories_def emitted_crate)

lemma untested_rule:
  "of_type ''untested-functions'' (fst (crate_checks re w p)) =
     (if 0 < count_in_files re w (p @ ''/src'') pub_fn_pattern None \<and>
         real (count_in_files re w (p @ ''/tests'') test_attr_pattern None)
           < real (count_in_files re w (p @ ''/src'') pub_fn_pattern None) / 2
      then [JObj [(''type'', JStr ''untested-functions''),
                  (''severity'', JStr ''high''),
                  (''suggestion'', JStr
                     (str_of_nat (count_in_files re w (p @ ''/src'') pub_fn_pattern None) @
                      '' public functions but only '' @
                      str_of_nat (count_in_files re w (p @ ''/tests'') test_attr_pattern None) @
                      '' tests. Add more unit tests.''))]]
      else [])"
  unfolding crate_checks_def rule_unfold
  by (simp split del: if_split cong: if_cong)

lemma str_of_small: "str_of_nat 51 = ''51''" "str_of_nat 10 = ''10''" "str_of_nat 2 = ''2''"
  by code_simp+

section \<open>C2: the inline-objects rule\<close>

lemma snd_if: "snd (if b then p else q) = (if b then snd p else snd q)"
  by simp

lemma inline_metric:
  "map_of (snd (module_checks re w p n)) ''inline_objects'' =
     (if str_contains ''ui'' (lower n)
      then Some (JInt (int (count_patterns re w p inline_objects_pattern)))
      else None)"
  unfolding module_checks_def Let_def split_def fst_conv snd_conv snd_if fst_if
  by (simp split del: if_split cong: if_cong) simp

lemma module_metric_present:
  "path_exists w n \<Longrightarrow>
   module_metric re w n k = [map_of (snd (module_checks re w n n)) k]"
  by (simp add: module_metric_def appended_def analyze_module_results)

lemma module_metric_missing:
  "\<not> path_exists w n \<Longrightarrow> module_metric re w n k = []"
  by (simp add: module_metric_def appended_def analyze_module_results)

lemma module_advisories_missing:
  "\<not> path_exists w n \<Longrightarrow> module_advisories re w n t = []"
  by (simp add: module_advisories_def emitted_module of_type_Nil)

text \<open>
  C2, as the code has it: the inline-objects rule stands inside the block of React checks,
  which runs only for a unit whose lower-cased name contains \<^verbatim>\<open>ui\<close>. For such a unit the
  analysis measures the count of the inline-object pattern (the record's metrics hold it
  under \<^verbatim>\<open>inline_objects\<close>) and emits exactly one inline-objects advisory, of severity low
  and carrying the count, when the count exceeds 50, and none when it is 50 or less. For any
  other unit the count is not measured (the record's metrics have no \<^verbatim>\<open>inline_objects\<close>
  entry) and no inline-objects advisory is emitted, whatever the count would be. Without
  the unit's directory there is neither record nor advisory.
\<close>

theorem inline_objects_rule:
  "(path_exists w module_name \<longrightarrow>
      module_advisories re w module_name ''inline-objects'' =
        (if str_contains ''ui'' (lower module_name) \<and>
            50 < count_patterns re w module_name inline_objects_pattern
         then [JObj [(''type'', JStr ''inline-objects''),
                     (''severity'', JStr ''low''),
                     (''count'', JInt (int (count_patterns re w module_name inline_objects_pattern))),
                     (''suggestion'', JStr (''Found '' @
                        str_of_nat (count_patterns re w module_name inline_objects_pattern) @
                        '' inline objects/arrays. May cause re-renders.''))]]
         else [])
      \<and> module_metric re w module_name ''inline_objects'' =
        [if str_contains ''ui'' (lower module_name)
         then Some (JInt (int (count_patterns re w module_name inline_objects_pattern)))
         else None])
   \<and> (\<not> path_exists w module_name \<longrightarrow>
        module_advisories re w module_name ''inline-objects'' = []
        \<and> module_metric re w module_name ''inline_objects'' = [])"
proof (intro conjI impI)
  assume p: "path_exists w module_name"
  show "module_advisories re w module_name ''inline-objects'' =
        (if str_contains ''ui'' (lower module_name) \<and>
            50 < count_patterns re w module_name inline_objects_pattern
         then [JObj [(''type'', JStr ''inline-objects''),
                     (''severity'', JStr ''low''),
                     (''count'', JInt (int (count_patterns re w module_name inline_objects_pattern))),
                     (''suggestion'', JStr (''Found '' @
                        str_of_nat (count_patterns re w module_name inline_objects_pattern) @
                        '' inline objects/arrays. May cause re-renders.''))]]
         else [])"
    by (simp only: module_advisories_present [OF p] inline_rule)
  show "module_metric re w module_name ''inline_objects'' =
        [if str_contains ''ui'' (lower module_name)
         then Some (JInt (int (count_patterns re w module_name inline_objects_pattern)))
         else None]"
    by (simp only: module_metric_present [OF p] inline_metric)
next
  assume q: "\<not> path_exists w module_name"
  show "module_advisories re w module_name ''inline-objects'' = []"
    by (rule module_advisories_missing [OF q])
  show "module_metric re w module_name ''inline_objects'' = []"
    by (rule module_metric_missing [OF q])
qed

theorem inline_objects_rule_witness:
  "path_exists (one_file_world (state_at 3) ''keyrx_ui/src'' ''.tsx'' (repeated 51 ''<A b={c}/> ''))
     ''keyrx_ui/src''
   \<and> str_contains ''ui'' (lower ''keyrx_ui/src'')
   \<and> count_patterns sample_findall
        (one_file_world (state_at 3) ''keyrx_ui/src'' ''.tsx'' (repeated 51 ''<A b={c}/> ''))
        ''keyrx_ui/src'' inline_objects_pattern = 51
   \<and> module_advisories sample_findall
        (one_file_world (state_at 3) ''keyrx_ui/src'' ''.tsx'' (repeated 51 ''<A b={c}/> ''))
        ''keyrx_ui/src'' ''inline-objects'' =
      [JObj [(''type'', JStr ''inline-objects''),
             (''severity'', JStr ''low''),
             (''count'', JInt 51),
             (''suggestion'', JStr ''Found 51 inline objects/arrays. May cause re-renders.'')]]
   \<and> module_metric sample_findall
        (one_file_world (state_at 3) ''keyrx_ui/src'' ''.tsx'' (repeated 51 ''<A b={c}/> ''))
        ''keyrx_ui/src'' ''inline_objects'' = [Some (JInt 51)]
   \<and> \<not> path_exists (empty_world None) ''keyrx_ui/src''
   \<and> module_advisories sample_findall (empty_world None) ''keyrx_ui/src'' ''inline-objects'' = []
   \<and> module_metric sample_findall (empty_world None) ''keyrx_ui/src'' ''inline_objects'' = []"
proof -
  let ?w = "one_file_world (state_at 3) ''keyrx_ui/src'' ''.tsx'' (repeated 51 ''<A b={c}/> '')"
  have p: "path_exists ?w ''keyrx_ui/src''"
    by (simp add: one_file_world_def sample_world_def)
  have q: "\<not> path_exists (empty_world None) ''keyrx_ui/src''"
    by (simp add: empty_world_def sample_world_def)
  have u: "str_contains ''ui'' (lower ''keyrx_ui/src'')"
    by code_simp
  have c: "count_patterns sample_findall ?w ''keyrx_ui/src'' inline_objects_pattern = 51"
    by code_simp
  have r1: "module_advisories sample_findall ?w ''keyrx_ui/src'' ''inline-objects'' =
      [JObj [(''type'', JStr ''inline-objects''),
             (''severity'', JStr ''low''),
             (''count'', JInt 51),
             (''suggestion'', JStr ''Found 51 inline objects/arrays. May cause re-renders.'')]]"
    using inline_objects_rule [of ?w "''keyrx_ui/src''" sample_findall] p
    by (simp add: u c str_of_small)
  have m1: "module_metric sample_findall ?w ''keyrx_ui/src'' ''inline_objects'' =
      [Some (JInt 51)]"
    using inline_objects_rule [of ?w "''keyrx_ui/src''" sample_findall] p
    by (simp add: u c)
  have r2: "module_advisories sample_findall (empty_world None) ''keyrx_ui/src''
      ''inline-objects'' = []"
    using inline_objects_rule [of "empty_world None" "''keyrx_ui/src''" sample_findall] q
    by blast
  have m2: "module_metric sample_findall (empty_world None) ''keyrx_ui/src''
      ''inline_objects'' = []"
    using inline_objects_rule [of "empty_world None" "''keyrx_ui/src''" sample_findall] q
    by blast
  show ?thesis
    by (intro conjI p q u c r1 r2 m1 m2)
qed

text \<open>
  C2 as stated, with no qualification by the unit's name, fails on \<^verbatim>\<open>keyrx_core\<close>: a source
  file with 51 matches of the inline-object pattern yields no inline-objects advisory, and
  the metrics of the record have no \<^verbatim>\<open>inline_objects\<close> entry.
\<close>

theorem inline_objects_not_for_core:
  "selected_unit MODULES
     (one_file_world None ''keyrx_core'' ''.rs'' (repeated 51 ''let a =[0; 4]; '')) =
     Inr ''keyrx_core''
   \<and> path_exists (one_file_world None ''keyrx_core'' ''.rs'' (repeated 51 ''let a =[0; 4]; ''))
       ''keyrx_core''
   \<and> count_patterns sample_findall
        (one_file_world None ''keyrx_core'' ''.rs'' (repeated 51 ''let a =[0; 4]; ''))
        ''keyrx_core'' inline_objects_pattern = 51
   \<and> module_advisories sample_findall
        (one_file_world None ''keyrx_core'' ''.rs'' (repeated 51 ''let a =[0; 4]; ''))
        ''keyrx_core'' ''inline-objects'' = []
   \<and> module_metric sample_findall
        (one_file_world None ''keyrx_core'' ''.rs'' (repeated 51 ''let a =[0; 4]; ''))
        ''keyrx_core'' ''inline_objects'' = [None]"
proof -
  let ?w = "one_file_world None ''keyrx_core'' ''.rs'' (repeated 51 ''let a =[0; 4]; '')"
  have s: "selected_unit MODULES ?w = Inr ''keyrx_core''"
    and p: "path_exists ?w ''keyrx_core''"
    by (simp_all add: selected_unit_def selected_index_def start_index_def one_file_world_def
        sample_world_def MODULES_def py_getitem_def)
  have u: "\<not> str_contains ''ui'' (lower ''keyrx_core'')"
    by code_simp
  have c: "count_patterns sample_findall ?w ''keyrx_core'' inline_objects_pattern = 51"
    by code_simp
  have a: "module_advisories sample_findall ?w ''keyrx_core'' ''inline-objects'' = []"
    by (simp add: module_advisories_present [OF p] inline_rule u)
  have m: "module_metric sample_findall ?w ''keyrx_core'' ''inline_objects'' = [None]"
    by (simp add: module_metric_present [OF p] inline_metric u)
  show ?thesis
    by (intro conjI s p c a m)
qed

section \<open>C7: the untested-functions rule\<close>

text \<open>
  C7: for an existing crate the analysis emits the untested-functions gap, of severity high,
  exactly when the count of public functions under \<^verbatim>\<open>src\<close> is positive and the count of
  tests under \<^verbatim>\<open>tests\<close> is less than half of it; with 10 public functions and 2 tests it
  is emitted, with 10 public functions and 6 tests it is not.
\<close>

theorem untested_functions_rule:
  "(path_exists w crate_name \<longrightarrow>
      crate_advisories re w crate_name ''untested-functions'' =
        (if 0 < count_in_files re w (crate_name @ ''/src'') pub_fn_pattern None \<and>
            real (count_in_files re w (crate_name @ ''/tests'') test_attr_pattern None)
              < real (count_in_files re w (crate_name @ ''/src'') pub_fn_pattern None) / 2
         then [JObj [(''type'', JStr ''untested-functions''),
                     (''severity'', JStr ''high''),
                     (''suggestion'', JStr
                        (str_of_nat (count_in_files re w (crate_name @ ''/src'') pub_fn_pattern None) @
                         '' public functions but only '' @
                         str_of_nat (count_in_files re w (crate_name @ ''/tests'') test_attr_pattern None) @
                         '' tests. Add more unit tests.''))]]
         else []))
   \<and> (path_exists w crate_name
        \<and> count_in_files re w (crate_name @ ''/src'') pub_fn_pattern None = 10
        \<and> count_in_files re w (crate_name @ ''/tests'') test_attr_pattern None = 2 \<longrightarrow>
        crate_advisories re w crate_name ''untested-functions'' =
          [JObj [(''type'', JStr ''untested-functions''),
                 (''severity'', JStr ''high''),
                 (''suggestion'', JStr
                    ''10 public functions but only 2 tests. Add more unit tests.'')]])
   \<and> (path_exists w crate_name
        \<and> count_in_files re w (crate_name @ ''/src'') pub_fn_pattern None = 10
        \<and> count_in_files re w (crate_name @ ''/tests'') test_attr_pattern None = 6 \<longrightarrow>
        crate_advisories re w crate_name ''untested-functions'' = [])"
  by (simp add: crate_advisories_def emitted_crate untested_rule str_of_small)

theorem untested_functions_rule_witness:
  "path_exists
     (crate_world None ''keyrx_core'' (repeated 10 ''pub fn f() {} '') (repeated 2 ''#[test] fn t() {} ''))
     ''keyrx_core''
   \<and> count_in_files sample_findall
        (crate_world None ''keyrx_core'' (repeated 10 ''pub fn f() {} '') (repeated 2 ''#[test] fn t() {} ''))
        (''keyrx_core'' @ ''/src'') pub_fn_pattern None = 10
   \<and> count_in_files sample_findall
        (crate_world None ''keyrx_core'' (repeated 10 ''pub fn f() {} '') (repeated 2 ''#[test] fn t() {} ''))
        (''keyrx_core'' @ ''/tests'') test_attr_pattern None = 2
   \<and> crate_advisories sample_findall
        (crate_world None ''keyrx_core'' (repeated 10 ''pub fn f() {} '') (repeated 2 ''#[test] fn t() {} ''))
        ''keyrx_core'' ''untested-functions'' =
      [JObj [(''type'', JStr ''untested-functions''),
             (''severity'', JStr ''high''),
             (''suggestion'', JStr ''10 public functions but only 2 tests. Add more unit tests.'')]]
   \<and> path_exists
     (crate_world None ''keyrx_core'' (repeated 10 ''pub fn f() {} '') (repeated 6 ''#[test] fn t() {} ''))
     ''keyrx_core''
   \<and> count_in_files sample_findall
        (crate_world None ''keyrx_core'' (repeated 10 ''pub fn f() {} '') (repeated 6 ''#[test] fn t() {} ''))
        (''keyrx_core'' @ ''/src'') pub_fn_pattern None = 10
   \<and> count_in_files sample_findall
        (crate_world None ''keyrx_core'' (repeated 10 ''pub fn f() {} '') (repeated 6 ''#[test] fn t() {} ''))
        (''keyrx_core'' @ ''/tests'') test_attr_pattern None = 6
   \<and> crate_advisories sample_findall
        (crate_world None ''keyrx_core'' (repeated 10 ''pub fn f() {} '') (repeated 6 ''#[test] fn t() {} ''))
        ''keyrx_core'' ''untested-functions'' = []"
proof -
  let ?w = "crate_world None ''keyrx_core'' (repeated 10 ''pub fn f() {} '') (repeated 2 ''#[test] fn t() {} '')"
  let ?v = "crate_world None ''keyrx_core'' (repeated 10 ''pub fn f() {} '') (repeated 6 ''#[test] fn t() {} '')"
  have p: "path_exists ?w ''keyrx_core''" "path_exists ?v ''keyrx_core''"
    by (simp_all add: crate_world_def sample_world_def)
  have c1: "count_in_files sample_findall ?w (''keyrx_core'' @ ''/src'') pub_fn_pattern None = 10"
    by code_simp
  have c2: "count_in_files sample_findall ?w (''keyrx_core'' @ ''/tests'') test_attr_pattern None = 2"
    by code_simp
  have c3: "count_in_files sample_findall ?v (''keyrx_core'' @ ''/src'') pub_fn_pattern None = 10"
    by code_simp
  have c4: "count_in_files sample_findall ?v (''keyrx_core'' @ ''/tests'') test_attr_pattern None = 6"
    by code_simp
  have r1: "crate_advisories sample_findall ?w ''keyrx_core'' ''untested-functions'' =
      [JObj [(''type'', JStr ''untested-functions''),
             (''severity'', JStr ''high''),
             (''suggestion'', JStr ''10 public functions but only 2 tests. Add more unit tests.'')]]"
    using untested_functions_rule [of ?w "''keyrx_core''" sample_findall] p(1) c1 c2
    by blast
  have r2: "crate_advisories sample_findall ?v ''keyrx_core'' ''untested-functions'' = []"
    using untested_functions_rule [of ?v "''keyrx_core''" sample_findall] p(2) c3 c4
    by blast
  show ?thesis
    by (intro conjI p c1 c2 c3 c4 r1 r2)
qed

section \<open>C8: the excessive-clones rule and monotonicity\<close>


subsection \<open>Counting in a repeated text\<close>
























end
